theory Spec2Isabelle
  imports Main "HOL-Library.Word" "HOL-Library.Sublist"
begin

section \<open>Python objects and the C API calls the bridge makes\<close>

text \<open>
  A Python object is identified by its address where the bridge keys a table by it
  (\<open>std::unordered_map<PyObject*, ...>\<close>), and by its value where the bridge converts it.
  A \<open>PyObject *\<close> that may be null is a \<open>pyobj option\<close>.

  A \<open>str\<close> is its sequence of code points; a \<open>float\<close> is the 64-bit pattern of
  its C double (the bridge only moves doubles, it never computes with them); an \<open>int\<close>
  is unbounded.  \<open>PyInstance r\<close> is any other object, at address \<open>r\<close>.
\<close>

type_synonym pyref = nat
type_synonym unicode = "nat list"
type_synonym c_long = "64 word"
type_synonym c_int = "32 word"
type_synonym c_double = "64 word"

datatype pyobj =
    PyNone
  | PyBool bool
  | PyLong int
  | PyFloat c_double
  | PyUnicode unicode
  | PyList "pyobj list"
  | PyTuple "pyobj list"
  | PyDict "(pyobj \<times> pyobj) list"
  | PyInstance pyref

datatype pyexc =
    RuntimeError | ValueError | TypeError | OverflowError
  | IndexError | AttributeError | KeyError | OtherException

text \<open>A raised exception: its class and its message.\<close>

type_synonym pyerr = "pyexc \<times> string"

text \<open>The type checks of the C API. \<open>bool\<close> is a subclass of \<open>int\<close>, so
  \<open>PyLong_Check\<close> accepts \<open>True\<close> and \<open>False\<close>.\<close>

fun PyUnicode_Check :: "pyobj \<Rightarrow> bool" where
  "PyUnicode_Check (PyUnicode _) = True"
| "PyUnicode_Check _ = False"

fun PyBool_Check :: "pyobj \<Rightarrow> bool" where
  "PyBool_Check (PyBool _) = True"
| "PyBool_Check _ = False"

fun PyLong_Check :: "pyobj \<Rightarrow> bool" where
  "PyLong_Check (PyLong _) = True"
| "PyLong_Check (PyBool _) = True"
| "PyLong_Check _ = False"

fun PyFloat_Check :: "pyobj \<Rightarrow> bool" where
  "PyFloat_Check (PyFloat _) = True"
| "PyFloat_Check _ = False"

fun PyList_Check :: "pyobj \<Rightarrow> bool" where
  "PyList_Check (PyList _) = True"
| "PyList_Check _ = False"

fun PyTuple_Check :: "pyobj \<Rightarrow> bool" where
  "PyTuple_Check (PyTuple _) = True"
| "PyTuple_Check _ = False"

fun PyDict_Check :: "pyobj \<Rightarrow> bool" where
  "PyDict_Check (PyDict _) = True"
| "PyDict_Check _ = False"

text \<open>
  \<open>PyLong_AsLong\<close>: the value as a C \<open>long\<close> (64 bits, as on the LP64 platforms), or
  \<open>OverflowError\<close> when the integer does not fit, or \<open>TypeError\<close> for an object that
  is no integer.
\<close>

definition fits_long :: "int \<Rightarrow> bool" where
  "fits_long v = (- (2 ^ 63) \<le> v \<and> v < 2 ^ 63)"

definition fits_int :: "int \<Rightarrow> bool" where
  "fits_int v = (- (2 ^ 31) \<le> v \<and> v < 2 ^ 31)"

fun PyLong_AsLong :: "pyobj \<Rightarrow> pyerr + c_long" where
  "PyLong_AsLong (PyLong v) =
     (if fits_long v then Inr (word_of_int v)
      else Inl (OverflowError, ''Python int too large to convert to C long''))"
| "PyLong_AsLong (PyBool b) = Inr (if b then 1 else 0)"
| "PyLong_AsLong _ = Inl (TypeError, ''an integer is required'')"

text \<open>\<open>static_cast<int>\<close> of a \<open>long\<close>, and the implicit conversion where a \<open>long\<close> is
  passed for an \<open>int\<close> parameter: the low 32 bits.\<close>

definition long_to_int :: "c_long \<Rightarrow> c_int" where
  "long_to_int v = ucast v"

text \<open>\<open>PyLong_FromLong\<close> of an \<open>int\<close>: the signed value.\<close>

definition PyLong_FromInt :: "c_int \<Rightarrow> pyobj" where
  "PyLong_FromInt v = PyLong (sint v)"

subsection \<open>C strings\<close>

text \<open>
  \<open>Shiboken::String::toCString\<close> hands out the UTF-8 encoding of a \<open>str\<close> as a
  \<open>const char *\<close>, or null when the string cannot be encoded (an unpaired surrogate).
  Every reader of that pointer (\<open>QString::fromUtf8(const char *)\<close>, \<open>qstrcmp\<close>,
  \<open>PyUnicode_FromString\<close>) stops at the first NUL.  A C string is written here as the
  code points it encodes, so it never contains 0.
\<close>

definition is_surrogate :: "nat \<Rightarrow> bool" where
  "is_surrogate c = (55296 \<le> c \<and> c \<le> 57343)"

definition c_str :: "unicode \<Rightarrow> unicode" where
  "c_str s = takeWhile (\<lambda>c. c \<noteq> 0) s"

definition toCString :: "pyobj \<Rightarrow> unicode option" where
  "toCString ob =
     (case ob of
        PyUnicode s \<Rightarrow> (if list_ex is_surrogate s then None else Some (c_str s))
      | _ \<Rightarrow> None)"

text \<open>\<open>Shiboken::String::fromCString(qs.toUtf8().constData())\<close>: a \<open>QString\<close> (taken
  to be well-formed, so that its UTF-8 encoding is its code points) read back as a C
  string.\<close>

definition fromCString :: "unicode \<Rightarrow> pyobj" where
  "fromCString qs = PyUnicode (c_str qs)"

section \<open>conversion.cpp\<close>

datatype qvariant =
    Invalid
  | QString unicode
  | QInt c_int
  | QDouble c_double
  | QBool bool
  | QVariantList "qvariant list"
  | QVariantMap "(unicode \<times> qvariant) list"
  | QPyObjectWrapper pyobj
  | QModelPtr pyref

text \<open>
  What conversion.cpp calls in PySide and Shiboken, whose code is not part of the
  repository: \<open>PySide::Variant::convertToVariantList\<close> and \<open>convertToVariantMap\<close> (an
  invalid variant on failure) and Shiboken's generic \<open>QVariant\<close> converter
  \<open>copyToPython\<close> (null on failure).
\<close>

record pyside =
  convertToVariantList :: "pyobj \<Rightarrow> qvariant"
  convertToVariantMap :: "pyobj \<Rightarrow> qvariant"
  copyToPython :: "qvariant \<Rightarrow> pyobj option"

definition pyObject2StringOpt :: "pyobj option \<Rightarrow> unicode option" where
  "pyObject2StringOpt obj =
     (case obj of
        None \<Rightarrow> None
      | Some ob \<Rightarrow>
          if ob = PyNone then None
          else if PyUnicode_Check ob then toCString ob
          else None)"

text \<open>
  \<open>pyObject2VariantOpt\<close>.  The branch for \<open>None\<close> is \<open>return {};\<close> in a function whose
  return type is \<open>std::optional<QVariant>\<close>: that value-initialises the optional, which
  is then empty, as after \<open>return std::nullopt;\<close>.  The function is entered with no
  Python error pending; where \<open>PyLong_AsLong\<close> fails it clears the error and goes on.
\<close>

definition pyObject2VariantOpt :: "pyside \<Rightarrow> pyobj option \<Rightarrow> qvariant option" where
  "pyObject2VariantOpt E obj =
     (case obj of
        None \<Rightarrow> None
      | Some ob \<Rightarrow>
          if ob = PyNone then None
          else if PyUnicode_Check ob then
            (case pyObject2StringOpt obj of
               Some s \<Rightarrow> Some (QString s)
             | None \<Rightarrow> None)
          else if PyBool_Check ob then Some (QBool (ob = PyBool True))
          else
            (case (if PyLong_Check ob then PyLong_AsLong ob
                   else Inl (TypeError, '''')) of
               Inr v \<Rightarrow> Some (QInt (long_to_int v))
             | Inl _ \<Rightarrow>
                 (case ob of
                    PyFloat d \<Rightarrow> Some (QDouble d)
                  | _ \<Rightarrow>
                      if PyList_Check ob \<or> PyTuple_Check ob then
                        (let l = convertToVariantList E ob
                         in if l \<noteq> Invalid then Some l else None)
                      else if PyDict_Check ob then
                        (let m = convertToVariantMap E ob
                         in if m \<noteq> Invalid then Some m else None)
                      else Some (QPyObjectWrapper ob))))"

text \<open>\<open>PyDict_SetItem\<close>: a present key keeps its place and takes the new value.\<close>

fun PyDict_SetItem :: "(pyobj \<times> pyobj) list \<Rightarrow> pyobj \<Rightarrow> pyobj \<Rightarrow> (pyobj \<times> pyobj) list" where
  "PyDict_SetItem [] k v = [(k, v)]"
| "PyDict_SetItem ((k', v') # d) k v =
     (if k' = k then (k', v) # d else (k', v') # PyDict_SetItem d k v)"

text \<open>
  \<open>variant2PyObject\<close>, with \<open>variantList2PyObject\<close> and \<open>variantMap2PyObject\<close> as its
  list and map cases.  The null results of the source arise only where an allocation
  fails, which is left out: the result is always an object.
\<close>

fun variant2PyObject :: "pyside \<Rightarrow> qvariant \<Rightarrow> pyobj" where
  "variant2PyObject E Invalid = PyNone"
| "variant2PyObject E (QVariantList l) = PyList (map (variant2PyObject E) l)"
| "variant2PyObject E (QVariantMap m) =
     PyDict (fold (\<lambda>(k, v) d. PyDict_SetItem d (fromCString k) (variant2PyObject E v)) m [])"
| "variant2PyObject E (QString s) = fromCString s"
| "variant2PyObject E (QInt i) = PyLong_FromInt i"
| "variant2PyObject E (QDouble d) = PyFloat d"
| "variant2PyObject E (QBool b) = PyBool b"
| "variant2PyObject E v =
     (case copyToPython E v of Some r \<Rightarrow> r | None \<Rightarrow> PyNone)"






text \<open>An installation whose library converters convert nothing.\<close>

definition pyside_none :: pyside where
  "pyside_none =
     \<lparr>convertToVariantList = (\<lambda>_. Invalid),
      convertToVariantMap = (\<lambda>_. Invalid),
      copyToPython = (\<lambda>_. None)\<rparr>"


section \<open>The Python side, and what a call leaves behind\<close>

text \<open>A call into Python returns an object or raises.\<close>

datatype pyresult = Returned pyobj | Raised pyerr

text \<open>
  What the bridge observes of the interpreter: the result of \<open>backend.data()\<close>, the
  \<open>tp_name\<close> of an object's type, \<open>PyObject_Str\<close>, \<open>PyObject_GetAttrString\<close> on a
  record, the \<open>__dataclass_fields__\<close> attribute of a type or instance (when it has one),
  the first type argument of the return annotation of \<open>backend.data\<close> (when the
  annotation has \<open>__args__\<close>, a non-empty tuple whose first item is a type), the
  \<open>str()\<close> of that annotation (when there is one), and \<open>PySequence_Check\<close>.
\<close>

record pyworld =
  call_data :: "pyref \<Rightarrow> pyresult"
  tp_name :: "pyref \<Rightarrow> string"
  str_of :: "pyobj \<Rightarrow> pyresult"
  get_attr :: "pyobj \<Rightarrow> unicode \<Rightarrow> pyobj option"
  dataclass_fields :: "pyobj \<Rightarrow> pyobj option"
  data_hint_arg :: "pyref \<Rightarrow> pyobj option"
  data_hint_str :: "pyref \<Rightarrow> string option"
  sequence_check :: "pyobj \<Rightarrow> bool"

text \<open>
  What a call of the bridge does besides returning: it logs (\<open>logPythonException\<close> with
  its context and the pending exception, \<open>qCWarning\<close>), it calls into Python, and it
  calls the structural-change primitives of \<open>QAbstractItemModel\<close>.  Debug output is left
  out.
\<close>

datatype event =
    LogException string "pyerr option"
  | LogWarning string
  | CallData pyref
  | CallPython "pyobj list" "(string \<times> pyobj) list option"
  | BeginInsertRows c_int c_int
  | EndInsertRows
  | BeginRemoveRows c_int c_int
  | EndRemoveRows
  | BeginMoveRows c_int c_int c_int
  | EndMoveRows
  | BeginResetModel
  | EndResetModel

text \<open>A result, the events in their order, and the Python error pending at the return.\<close>

type_synonym 'a effect = "'a \<times> event list \<times> pyerr option"

section \<open>autoqmlbridgemodel.cpp\<close>

datatype DataType = Unknown | List | DataClassList | Table

definition DisplayRole :: int where "DisplayRole = 0"
definition UserRole :: int where "UserRole = 256"

text \<open>A byte string of ASCII characters, as its code points.\<close>

definition ascii :: "string \<Rightarrow> unicode" where
  "ascii s = map (\<lambda>c. nat (of_char c)) s"

text \<open>
  \<open>QHash<int, QByteArray>\<close> as an association list with one entry for a key:
  \<open>h[k] = v\<close> is \<open>qhash_insert\<close>, \<open>h.value(k)\<close> is \<open>qhash_value\<close> (the empty byte array
  for an absent key).  Role ids are C \<open>int\<close>s; they are written as integers, the number
  of fields of a class being far from the range of an \<open>int\<close>.
\<close>

type_synonym qhash = "(int \<times> unicode) list"

fun qhash_insert :: "int \<Rightarrow> unicode \<Rightarrow> qhash \<Rightarrow> qhash" where
  "qhash_insert k v [] = [(k, v)]"
| "qhash_insert k v ((k', v') # h) =
     (if k' = k then (k, v) # h else (k', v') # qhash_insert k v h)"

definition qhash_value :: "qhash \<Rightarrow> int \<Rightarrow> unicode" where
  "qhash_value h k = (case map_of h k of Some v \<Rightarrow> v | None \<Rightarrow> [])"

text \<open>
  The model adapter.  \<open>is_type_model\<close> tells whether the object is a
  \<open>BridgePyTypeObjectModel\<close> (what the \<open>dynamic_cast\<close> of the source asks).  The
  pointer to the description and the property map are left out: the functions below do
  not read them.
\<close>

record adapter =
  m_backend :: "pyref option"
  m_datatype :: DataType
  m_dataClassRoles :: qhash
  m_dataClassFieldNames :: "unicode list"
  is_type_model :: bool

record qmodelindex =
  idx_valid :: bool
  idx_row :: c_int

definition unknown_model_message :: "string \<Rightarrow> string" where
  "unknown_model_message typeName =
     ''Type '' @ [CHR 0x27] @ typeName @ [CHR 0x27]
     @ '' is being used as a QML model but does not have a data() method. ''
     @ ''When using bridge_type() registered types as ListView models, you must provide a data() method. ''
     @ ''Please add a data() method with a return type hint, e.g.:'' @ [CHR 0x0A]
     @ ''  def data(self) -> list[str]: ...  # For simple lists'' @ [CHR 0x0A]
     @ ''  def data(self) -> List[MyDataClass]: ...  # For dataclass lists''"

text \<open>
  \<open>rowCount\<close>.  \<open>logPythonException\<close> stashes the pending error and restores it, so
  the error of a failed \<open>data()\<close> is still pending at the return; the usage error of the
  \<open>Unknown\<close> case is cleared by the \<open>PyErr_Clear\<close> that follows the log.
\<close>

definition rowCount :: "pyworld \<Rightarrow> adapter \<Rightarrow> bool \<Rightarrow> c_int effect" where
  "rowCount W a parent_valid =
     (if parent_valid then (0, [], None)
      else case m_backend a of
        None \<Rightarrow> (0, [], None)
      | Some b \<Rightarrow>
          if m_datatype a = Unknown \<and> is_type_model a then
            (0, [LogException ''AutoQmlBridgeModel::rowCount''
                   (Some (TypeError, unknown_model_message (tp_name W b)))], None)
          else if m_datatype a = List \<or> m_datatype a = DataClassList then
            (case call_data W b of
               Raised e \<Rightarrow>
                 (0, [CallData b,
                      LogException ''AutoQmlBridgeModel::rowCount: error calling backend.data()''
                        (Some e)], Some e)
             | Returned d \<Rightarrow>
                 (case d of
                    PyList items \<Rightarrow> (of_nat (length items), [CallData b], None)
                  | _ \<Rightarrow> (0, [CallData b], None)))
          else (0, [], None))"

text \<open>
  The chain of type tests by which \<open>data\<close> converts a list element or a record field,
  in the order of the source: \<open>PyUnicode_Check\<close>, \<open>PyLong_Check\<close>, \<open>PyFloat_Check\<close>,
  \<open>PyBool_Check\<close>, \<open>None\<close>, and \<open>str()\<close> for the rest.  \<open>PyLong_AsLong\<close> returns -1
  where it fails.
\<close>

definition element_to_variant :: "pyworld \<Rightarrow> pyobj \<Rightarrow> qvariant \<times> pyerr option" where
  "element_to_variant W item =
     (if PyUnicode_Check item then
        (case toCString item of
           None \<Rightarrow> (Invalid, Some (OtherException, ''UnicodeEncodeError''))
         | Some s \<Rightarrow> (QString s, None))
      else if PyLong_Check item then
        (case PyLong_AsLong item of
           Inr v \<Rightarrow> (QInt (long_to_int v), None)
         | Inl e \<Rightarrow> (QInt (long_to_int (- 1)), Some e))
      else if PyFloat_Check item then
        (case item of PyFloat d \<Rightarrow> (QDouble d, None) | _ \<Rightarrow> (Invalid, None))
      else if PyBool_Check item then (QBool (item = PyBool True), None)
      else if item = PyNone then (Invalid, None)
      else
        (case str_of W item of
           Returned so \<Rightarrow>
             (if PyUnicode_Check so then
                (case toCString so of
                   None \<Rightarrow> (Invalid, Some (OtherException, ''UnicodeEncodeError''))
                 | Some s \<Rightarrow> (QString s, None))
              else (Invalid, None))
         | Raised e \<Rightarrow> (Invalid, Some e)))"

definition data :: "pyworld \<Rightarrow> adapter \<Rightarrow> qmodelindex \<Rightarrow> int \<Rightarrow> qvariant effect" where
  "data W a index role =
     (case m_backend a of
        None \<Rightarrow> (Invalid, [], None)
      | Some b \<Rightarrow>
          if \<not> idx_valid index then (Invalid, [], None)
          else if m_datatype a = Unknown \<and> is_type_model a then (Invalid, [], None)
          else if m_datatype a = List then
            (if role \<noteq> DisplayRole then (Invalid, [], None)
             else case call_data W b of
               Raised e \<Rightarrow>
                 (Invalid,
                  [CallData b,
                   LogException ''AutoQmlBridgeModel::data: error calling backend.data() (List)''
                     (Some e)], Some e)
             | Returned d \<Rightarrow>
                 (case d of
                    PyList items \<Rightarrow>
                      if sint (idx_row index) < 0 \<or> int (length items) \<le> sint (idx_row index)
                      then (Invalid, [CallData b], None)
                      else
                        (let (v, err) = element_to_variant W (items ! nat (sint (idx_row index)))
                         in (v, [CallData b], err))
                  | _ \<Rightarrow> (Invalid, [CallData b], None)))
          else if m_datatype a = DataClassList then
            (case call_data W b of
               Raised e \<Rightarrow>
                 (Invalid,
                  [CallData b,
                   LogException
                     ''AutoQmlBridgeModel::data: error calling backend.data() (DataClassList)''
                     (Some e)], Some e)
             | Returned d \<Rightarrow>
                 (case d of
                    PyList items \<Rightarrow>
                      if sint (idx_row index) < 0 \<or> int (length items) \<le> sint (idx_row index)
                      then (Invalid, [CallData b], None)
                      else
                        (let dataclassItem = items ! nat (sint (idx_row index));
                             fieldName = qhash_value (m_dataClassRoles a) role
                         in if fieldName = [] then
                              (if role = DisplayRole then
                                 (case str_of W dataclassItem of
                                    Returned so \<Rightarrow>
                                      (if PyUnicode_Check so then
                                         (case toCString so of
                                            None \<Rightarrow>
                                              (Invalid, [CallData b],
                                               Some (OtherException, ''UnicodeEncodeError''))
                                          | Some s \<Rightarrow> (QString s, [CallData b], None))
                                       else (Invalid, [CallData b], None))
                                  | Raised e \<Rightarrow> (Invalid, [CallData b], Some e))
                               else (Invalid, [CallData b], None))
                            else
                              (case get_attr W dataclassItem fieldName of
                                 None \<Rightarrow> (Invalid, [CallData b], None)
                               | Some fieldValue \<Rightarrow>
                                   (let (v, err) = element_to_variant W fieldValue
                                    in (v, [CallData b], err))))
                  | _ \<Rightarrow> (Invalid, [CallData b], None)))
          else (Invalid, [], None))"


text \<open>\<open>QtBridges::getDataClassFieldNames\<close> of helpers.cpp: the keys of
  \<open>__dataclass_fields__\<close> that are strings with a C string.\<close>

definition getDataClassFieldNames :: "pyworld \<Rightarrow> pyobj \<Rightarrow> unicode list" where
  "getDataClassFieldNames W ob =
     (case dataclass_fields W ob of
        None \<Rightarrow> []
      | Some f \<Rightarrow>
          (case f of
             PyDict kvs \<Rightarrow>
               List.map_filter
                 (\<lambda>(k, _). if PyUnicode_Check k then toCString k else None) kvs
           | _ \<Rightarrow> []))"

text \<open>\<open>AutoQmlBridgeModel::getDataClassFieldNames\<close>: the cached names, or the names
  read from the type hint of \<open>data()\<close>, or those of the first row.\<close>

definition model_getDataClassFieldNames :: "pyworld \<Rightarrow> adapter \<Rightarrow> unicode list effect" where
  "model_getDataClassFieldNames W a =
     (if m_dataClassFieldNames a \<noteq> [] then (m_dataClassFieldNames a, [], None)
      else if m_datatype a \<noteq> DataClassList \<and> m_datatype a \<noteq> Table then ([], [], None)
      else case m_backend a of
        None \<Rightarrow> ([], [], None)
      | Some b \<Rightarrow>
          (let hinted =
                 (case data_hint_arg W b of
                    None \<Rightarrow> []
                  | Some t \<Rightarrow> getDataClassFieldNames W t)
           in if hinted \<noteq> [] then (hinted, [], None)
              else case call_data W b of
                Raised e \<Rightarrow>
                  ([],
                   [CallData b,
                    LogException
                      ''AutoQmlBridgeModel::getDataClassFieldNames: error calling backend.data()''
                      (Some e)], Some e)
              | Returned d \<Rightarrow>
                  (case d of
                     PyList (firstItem # _) \<Rightarrow>
                       (getDataClassFieldNames W firstItem, [CallData b], None)
                   | _ \<Rightarrow> ([], [CallData b], None))))"

definition baseRole :: int where
  "baseRole = UserRole + 1000"

text \<open>The loop of \<open>setupDataClassRoles\<close>: \<open>m_dataClassRoles[baseRole + i] = names[i]\<close>
  for \<open>i\<close> from the given start.\<close>

fun insert_roles :: "int \<Rightarrow> unicode list \<Rightarrow> qhash \<Rightarrow> qhash" where
  "insert_roles i [] h = h"
| "insert_roles i (n # ns) h = insert_roles (i + 1) ns (qhash_insert (baseRole + i) n h)"

definition setupDataClassRoles :: "pyworld \<Rightarrow> adapter \<Rightarrow> adapter effect" where
  "setupDataClassRoles W a =
     (case model_getDataClassFieldNames W a of
        (names, ev, err) \<Rightarrow>
          (a\<lparr>m_dataClassFieldNames := names,
             m_dataClassRoles := insert_roles 0 names []\<rparr>, ev, err))"

text \<open>The constructor \<open>AutoQmlBridgeModel(backend, metaObject, datatype)\<close>.\<close>

definition new_AutoQmlBridgeModel :: "pyworld \<Rightarrow> pyref option \<Rightarrow> DataType \<Rightarrow> adapter effect" where
  "new_AutoQmlBridgeModel W backend datatype =
     (let a = \<lparr>m_backend = backend, m_datatype = datatype, m_dataClassRoles = [],
                m_dataClassFieldNames = [], is_type_model = False\<rparr>
      in if datatype = DataClassList then setupDataClassRoles W a else (a, [], None))"

definition endReset :: "pyworld \<Rightarrow> adapter \<Rightarrow> adapter effect" where
  "endReset W a =
     (if m_datatype a = DataClassList \<and> m_dataClassRoles a = [] then
        (case setupDataClassRoles W (a\<lparr>m_dataClassFieldNames := []\<rparr>) of
           (a', ev, err) \<Rightarrow> (a', ev @ [EndResetModel], err))
      else (a, [EndResetModel], None))"


text \<open>Worlds and adapters to run the model on: a world where \<open>data()\<close> gives one fixed
  result and nothing else is there to see, and an adapter as the constructors leave it.\<close>

definition world_of :: "pyresult \<Rightarrow> pyworld" where
  "world_of r =
     \<lparr>call_data = (\<lambda>_. r), tp_name = (\<lambda>_. ''Backend''),
      str_of = (\<lambda>_. Raised (TypeError, [])), get_attr = (\<lambda>_ _. None),
      dataclass_fields = (\<lambda>_. None), data_hint_arg = (\<lambda>_. None),
      data_hint_str = (\<lambda>_. None), sequence_check = (\<lambda>_. False)\<rparr>"

definition adapter_of :: "pyref option \<Rightarrow> DataType \<Rightarrow> bool \<Rightarrow> adapter" where
  "adapter_of b t tm =
     \<lparr>m_backend = b, m_datatype = t, m_dataClassRoles = [], m_dataClassFieldNames = [],
      is_type_model = tm\<rparr>"

definition two_rows :: pyobj where
  "two_rows = PyList [PyUnicode (ascii ''a''), PyUnicode (ascii ''b'')]"




section \<open>autoqmlbridge\_p.h: the bridge handle and the registries\<close>

datatype BridgeMode = Instance | Type

text \<open>What has been added to a \<open>PySide::MetaObjectBuilder\<close>: class infos, signals,
  properties (name and type) and slots (signature and return type).\<close>

record meta_builder =
  mb_infos :: "(string \<times> string) list"
  mb_signals :: "string list"
  mb_properties :: "(string \<times> string) list"
  mb_slots :: "(string \<times> string) list"

record bridge_private =
  b_metaObjectBuilder :: "meta_builder option"
  b_backend :: "pyref option"
  b_pythonType :: "pyref option"
  b_model :: "adapter option"
  b_mode :: BridgeMode
  b_datatype :: DataType
  b_defaultProperty :: string

text \<open>
  The process-wide tables: \<open>s_bridgeMap\<close> and \<open>s_typeModelMap\<close>, keyed by the address
  of the Python object; the two capsules that pycapsule.cpp stores in a registered type's
  own dictionary (\<open>_qtbridges_handler\<close>, \<open>_qtbridges_metaobject\<close>); and what has been
  registered with the QML engine (singletons by uri and name, types by uri, version and
  name).
\<close>

record registries =
  s_bridgeMap :: "pyref \<rightharpoonup> bridge_private"
  s_typeModelMap :: "pyref \<rightharpoonup> adapter"
  type_handler :: "pyref \<rightharpoonup> bridge_private"
  type_metaobject :: "pyref \<rightharpoonup> meta_builder"
  qml_singletons :: "(string \<times> string) list"
  qml_types :: "(string \<times> nat \<times> nat \<times> string) list"

section \<open>updateqmldecorators\<close>

text \<open>
  The wrapped callable as a decorator sees it: its code object (\<open>co_varnames\<close> and
  \<open>co_argcount\<close>) when it has one, the \<open>tp_name\<close> of its return annotation (when
  it has one that is a type), what \<open>__get__(instance, type)\<close> does (nothing
  when it binds, the exception otherwise), and what a call of the bound method does to
  the world.
\<close>

record pyfunc =
  fn_code :: "(string list \<times> nat) option"
  fn_returns :: "string option"
  fn_get :: "pyerr option"
  fn_call :: "pyworld \<Rightarrow> pyobj list \<Rightarrow> (string \<times> pyobj) list option \<Rightarrow> pyresult \<times> pyworld"

record decorator =
  m_wrapped_func :: "pyfunc option"
  m_backend_instance :: "pyref option"

datatype decorator_kind = Insert | Remove | Move | Reset

fun kind_name :: "decorator_kind \<Rightarrow> string" where
  "kind_name Insert = ''insert''"
| "kind_name Remove = ''remove''"
| "kind_name Move = ''move''"
| "kind_name Reset = ''reset''"

subsection \<open>decoratorhelpers.cpp\<close>

text \<open>\<open>validateDecoratorState\<close>: the error it sets, or the wrapped function and the
  backend instance that the caller goes on with.\<close>

definition validateDecoratorState :: "decorator \<Rightarrow> string \<Rightarrow> pyerr + (pyfunc \<times> pyref)" where
  "validateDecoratorState d decoratorName =
     (case m_wrapped_func d of
        None \<Rightarrow>
          Inl (ValueError,
               ''@'' @ decoratorName
               @ '' decorator was not properly initialized - missing wrapped function'')
      | Some f \<Rightarrow>
          (case m_backend_instance d of
             None \<Rightarrow>
               Inl (RuntimeError,
                    ''@'' @ decoratorName @ '' decorator has no bound backend instance. ''
                    @ ''Decorators must be bound to an instance via bridge_instance() or bridge_type().'')
           | Some b \<Rightarrow> Inr (f, b)))"

definition getModelForDecorator :: "registries \<Rightarrow> decorator \<Rightarrow> adapter option \<times> event list" where
  "getModelForDecorator G d =
     (case m_backend_instance d of
        None \<Rightarrow> (None, [])
      | Some backend \<Rightarrow>
          (case s_bridgeMap G backend of
             Some bridge \<Rightarrow> (b_model bridge, [])
           | None \<Rightarrow>
               (case s_typeModelMap G backend of
                  Some m \<Rightarrow> (Some m, [])
                | None \<Rightarrow>
                    (None,
                     [LogWarning
                        ''getModelForDecorator: Backend instance not found in s_bridgeMap or s_typeModelMap'']))))"

text \<open>\<open>createBoundMethod\<close> for a backend instance that is there: the error, logged, when
  \<open>__get__\<close> fails.\<close>

definition createBoundMethod :: "pyfunc \<Rightarrow> pyerr option \<times> event list" where
  "createBoundMethod f =
     (case fn_get f of
        None \<Rightarrow> (None, [])
      | Some e \<Rightarrow>
          (Some e,
           [LogException ''decoratorhelpers.cpp: error calling wrapped_func.__get__'' (Some e)]))"

text \<open>The loop over \<open>co_varnames\<close>: the first position that holds the name.\<close>

fun arg_pos :: "string \<Rightarrow> string list \<Rightarrow> nat option" where
  "arg_pos n [] = None"
| "arg_pos n (x # xs) =
     (if x = n then Some 0 else map_option Suc (arg_pos n xs))"

definition extractArgumentByName ::
  "pyfunc \<Rightarrow> pyobj list \<Rightarrow> (string \<times> pyobj) list option \<Rightarrow> string \<Rightarrow> bool
   \<Rightarrow> pyobj option \<times> pyerr option" where
  "extractArgumentByName wrapped_func args kwds arg_name is_required =
     (let result =
        (case fn_code wrapped_func of
           None \<Rightarrow> None
         | Some (varnames, argcount) \<Rightarrow>
             (let positional =
                (case arg_pos arg_name (take argcount varnames) of
                   None \<Rightarrow> None
                 | Some p \<Rightarrow>
                     if 1 \<le> p \<and> p - 1 < length args then Some (args ! (p - 1)) else None)
              in case positional of
                   Some r \<Rightarrow> Some r
                 | None \<Rightarrow> (case kwds of None \<Rightarrow> None | Some k \<Rightarrow> map_of k arg_name)))
      in (result,
          if result = None \<and> is_required
          then Some (ValueError,
                 ''Required argument '' @ [CHR 0x27] @ arg_name @ [CHR 0x27] @ '' not found'')
          else None))"

definition hasArgumentByName :: "pyfunc \<Rightarrow> string \<Rightarrow> bool" where
  "hasArgumentByName func arg_name =
     (case fn_code func of
        None \<Rightarrow> False
      | Some (varnames, argcount) \<Rightarrow> arg_pos arg_name (take argcount varnames) \<noteq> None)"

subsection \<open>The decorators\<close>

text \<open>What a call of a decorator leaves: the object returned (or null), the Python error
  pending, the events, the world after the call, and the model it found, as the call
  leaves it.\<close>

record outcome =
  o_result :: "pyobj option"
  o_error :: "pyerr option"
  o_events :: "event list"
  o_world :: pyworld
  o_model :: "adapter option"

definition model_not_found :: "string \<Rightarrow> pyerr" where
  "model_not_found decoratorName =
     (RuntimeError,
      ''@'' @ decoratorName @ '' - Model not found for the bound backend instance. ''
      @ ''Ensure bridge_instance() or bridge_type() was called.'')"

text \<open>\<open>tp_init\<close> of the four decorators: \<open>remove\<close> asks for a parameter called
  \<open>index\<close>, \<open>move\<close> for \<open>from_index\<close> and \<open>to_index\<close>.\<close>

fun tp_init :: "decorator_kind \<Rightarrow> pyfunc \<Rightarrow> pyerr + decorator" where
  "tp_init Remove func =
     (if \<not> hasArgumentByName func ''index'' then
        Inl (TypeError,
             ''@remove-decorated method must have an argument named ''
             @ [CHR 0x27] @ ''index'' @ [CHR 0x27])
      else Inr \<lparr>m_wrapped_func = Some func, m_backend_instance = None\<rparr>)"
| "tp_init Move func =
     (if \<not> hasArgumentByName func ''from_index'' \<or> \<not> hasArgumentByName func ''to_index'' then
        Inl (TypeError,
             ''@move-decorated method must have '' @ [CHR 0x27] @ ''from_index'' @ [CHR 0x27]
             @ '' and '' @ [CHR 0x27] @ ''to_index'' @ [CHR 0x27] @ '' as parameter names'')
      else Inr \<lparr>m_wrapped_func = Some func, m_backend_instance = None\<rparr>)"
| "tp_init _ func = Inr \<lparr>m_wrapped_func = Some func, m_backend_instance = None\<rparr>"

definition setBackendInstance :: "decorator \<Rightarrow> pyref \<Rightarrow> decorator" where
  "setBackendInstance d instance = d\<lparr>m_backend_instance := Some instance\<rparr>"

text \<open>The call of the bound method between a begin and an end primitive, as the four
  \<open>tp_call\<close> end: the earlier events with the begin event, the call, the end event, and the
  log of the exception when the method raised.\<close>

definition call_wrapped ::
  "string \<Rightarrow> pyfunc \<Rightarrow> pyworld \<Rightarrow> pyobj list \<Rightarrow> (string \<times> pyobj) list option
   \<Rightarrow> event list \<Rightarrow> event \<Rightarrow> adapter \<Rightarrow> pyerr option \<Rightarrow> outcome" where
  "call_wrapped context f W args kwds earlier end_event model pending =
     (case fn_call f W args kwds of
        (Returned r, W') \<Rightarrow>
          \<lparr>o_result = Some r, o_error = pending,
           o_events = earlier @ [CallPython args kwds, end_event],
           o_world = W', o_model = Some model\<rparr>
      | (Raised e, W') \<Rightarrow>
          \<lparr>o_result = None, o_error = Some e,
           o_events = earlier @ [CallPython args kwds, end_event, LogException context (Some e)],
           o_world = W', o_model = Some model\<rparr>)"

definition failed :: "pyworld \<Rightarrow> adapter option \<Rightarrow> pyerr \<Rightarrow> event list \<Rightarrow> outcome" where
  "failed W model e ev =
     \<lparr>o_result = None, o_error = Some e, o_events = ev, o_world = W, o_model = model\<rparr>"

definition InsertDecorator_tp_call ::
  "registries \<Rightarrow> pyworld \<Rightarrow> decorator \<Rightarrow> pyobj list \<Rightarrow> (string \<times> pyobj) list option \<Rightarrow> outcome" where
  "InsertDecorator_tp_call G W d args kwds =
     (case validateDecoratorState d ''insert'' of
        Inl e \<Rightarrow> failed W None e [LogException ''@insert - Invalid decorator state'' (Some e)]
      | Inr (f, b) \<Rightarrow>
          (case getModelForDecorator G d of
             (None, ev) \<Rightarrow>
               failed W None (model_not_found ''insert'')
                 (ev @ [LogException ''@insert - Model not found''
                          (Some (model_not_found ''insert''))])
           | (Some model, ev) \<Rightarrow>
               (case createBoundMethod f of
                  (Some e, ev') \<Rightarrow> failed W (Some model) e ev'
                | (None, _) \<Rightarrow>
                    (case fst (extractArgumentByName f args kwds ''index'' False) of
                       Some index_obj \<Rightarrow>
                         (case PyLong_AsLong index_obj of
                            Inl e \<Rightarrow>
                              failed W (Some model) e
                                [LogException
                                   ''@insert - Failed to convert index argument to long''
                                   (Some e)]
                          | Inr index \<Rightarrow>
                              call_wrapped ''@insert - Error in wrapped function'' f W args kwds
                                [BeginInsertRows (long_to_int index) (long_to_int index)]
                                EndInsertRows model None)
                     | None \<Rightarrow>
                         (case rowCount W model False of
                            (n, ev', pending) \<Rightarrow>
                              call_wrapped ''@insert - Error in wrapped function'' f W args kwds
                                (ev' @ [BeginInsertRows n n]) EndInsertRows model pending)))))"

definition RemoveDecorator_tp_call ::
  "registries \<Rightarrow> pyworld \<Rightarrow> decorator \<Rightarrow> pyobj list \<Rightarrow> (string \<times> pyobj) list option \<Rightarrow> outcome" where
  "RemoveDecorator_tp_call G W d args kwds =
     (case validateDecoratorState d ''remove'' of
        Inl e \<Rightarrow> failed W None e [LogException ''@remove - Invalid decorator state'' (Some e)]
      | Inr (f, b) \<Rightarrow>
          (case getModelForDecorator G d of
             (None, ev) \<Rightarrow>
               failed W None (model_not_found ''remove'')
                 (ev @ [LogException ''@remove - Model not found''
                          (Some (model_not_found ''remove''))])
           | (Some model, ev) \<Rightarrow>
               (case extractArgumentByName f args kwds ''index'' True of
                  (None, err) \<Rightarrow>
                    \<lparr>o_result = None, o_error = err,
                     o_events = [LogException
                                   ''@remove - Missing index argument in remove decorator'' err],
                     o_world = W, o_model = Some model\<rparr>
                | (Some index_obj, _) \<Rightarrow>
                    (case PyLong_AsLong index_obj of
                       Inl e \<Rightarrow>
                         failed W (Some model) e
                           [LogException
                              ''@remove - Failed to convert index argument to long in remove decorator''
                              (Some e)]
                     | Inr rowToRemove \<Rightarrow>
                         (case createBoundMethod f of
                            (Some e, ev') \<Rightarrow>
                              failed W (Some model) e
                                ([BeginRemoveRows (long_to_int rowToRemove)
                                    (long_to_int rowToRemove)]
                                 @ ev' @ [EndRemoveRows])
                          | (None, _) \<Rightarrow>
                              call_wrapped ''@remove - Error in wrapped function'' f W args kwds
                                [BeginRemoveRows (long_to_int rowToRemove)
                                   (long_to_int rowToRemove)]
                                EndRemoveRows model None)))))"

text \<open>
  \<open>move\<close>.  \<open>toIndex > fromIndex\<close> compares the two \<open>long\<close>s as signed values;
  \<open>adjustedToIndex\<close> is an \<open>int\<close> initialised from \<open>toIndex\<close>, and \<open>++\<close> on it is written
  as the addition of the word (in C++ its overflow is undefined).
\<close>

definition MoveDecorator_tp_call ::
  "registries \<Rightarrow> pyworld \<Rightarrow> decorator \<Rightarrow> pyobj list \<Rightarrow> (string \<times> pyobj) list option \<Rightarrow> outcome" where
  "MoveDecorator_tp_call G W d args kwds =
     (case validateDecoratorState d ''move'' of
        Inl e \<Rightarrow> failed W None e [LogException ''@move - Invalid decorator state'' (Some e)]
      | Inr (f, b) \<Rightarrow>
          (case getModelForDecorator G d of
             (None, ev) \<Rightarrow>
               failed W None (model_not_found ''move'')
                 (ev @ [LogException ''@move - Model not found''
                          (Some (model_not_found ''move''))])
           | (Some model, ev) \<Rightarrow>
               (case (extractArgumentByName f args kwds ''from_index'' True,
                      extractArgumentByName f args kwds ''to_index'' True) of
                  ((Some from_index_obj, _), (Some to_index_obj, _)) \<Rightarrow>
                    (case (PyLong_AsLong from_index_obj, PyLong_AsLong to_index_obj) of
                       (Inr fromIndex, Inr toIndex) \<Rightarrow>
                         (let adjustedToIndex =
                                (if fromIndex <s toIndex then long_to_int toIndex + 1
                                 else long_to_int toIndex);
                              begin_event =
                                BeginMoveRows (long_to_int fromIndex) (long_to_int fromIndex)
                                  adjustedToIndex
                          in case createBoundMethod f of
                               (Some e, ev') \<Rightarrow>
                                 failed W (Some model) e ([begin_event] @ ev' @ [EndMoveRows])
                             | (None, _) \<Rightarrow>
                                 call_wrapped ''@move - Error in wrapped function'' f W args kwds
                                   [begin_event] EndMoveRows model None)
                     | (_, Inl e) \<Rightarrow>
                         failed W (Some model) e
                           [LogException
                              ''@move - Failed to convert from_index or to_index to long in move decorator''
                              (Some e)]
                     | (Inl e, _) \<Rightarrow>
                         failed W (Some model) e
                           [LogException
                              ''@move - Failed to convert from_index or to_index to long in move decorator''
                              (Some e)])
                | ((_, err1), (_, err2)) \<Rightarrow>
                    (let err = (case err2 of Some e \<Rightarrow> Some e | None \<Rightarrow> err1)
                     in \<lparr>o_result = None, o_error = err,
                         o_events =
                           [LogException
                              ''@move - Missing from_index or to_index argument in move decorator''
                              err],
                         o_world = W, o_model = Some model\<rparr>))))"

text \<open>
  \<open>reset\<close>.  \<open>endReset\<close> runs in the world the wrapped method has left, and its events
  end with the end primitive.
\<close>

definition ResetDecorator_tp_call ::
  "registries \<Rightarrow> pyworld \<Rightarrow> decorator \<Rightarrow> pyobj list \<Rightarrow> (string \<times> pyobj) list option \<Rightarrow> outcome" where
  "ResetDecorator_tp_call G W d args kwds =
     (case validateDecoratorState d ''reset'' of
        Inl e \<Rightarrow> failed W None e [LogException ''@reset - Invalid decorator state'' (Some e)]
      | Inr (f, b) \<Rightarrow>
          (case getModelForDecorator G d of
             (None, ev) \<Rightarrow>
               failed W None (model_not_found ''reset'')
                 (ev @ [LogException ''@reset - Model not found''
                          (Some (model_not_found ''reset''))])
           | (Some model, ev) \<Rightarrow>
               (case createBoundMethod f of
                  (Some e, ev') \<Rightarrow> failed W (Some model) e ev'
                | (None, _) \<Rightarrow>
                    (case fn_call f W args kwds of
                       (r, W') \<Rightarrow>
                         (case endReset W' model of
                            (model', ev', pending) \<Rightarrow>
                              (case r of
                                 Returned x \<Rightarrow>
                                   \<lparr>o_result = Some x, o_error = pending,
                                    o_events = [BeginResetModel, CallPython args kwds] @ ev',
                                    o_world = W', o_model = Some model'\<rparr>
                               | Raised e \<Rightarrow>
                                   \<lparr>o_result = None, o_error = Some e,
                                    o_events =
                                      [BeginResetModel, CallPython args kwds] @ ev'
                                      @ [LogException
                                           ''@reset decorator: Python method call failed''
                                           (Some e)],
                                    o_world = W', o_model = Some model'\<rparr>))))))"

fun tp_call ::
  "decorator_kind \<Rightarrow> registries \<Rightarrow> pyworld \<Rightarrow> decorator \<Rightarrow> pyobj list
   \<Rightarrow> (string \<times> pyobj) list option \<Rightarrow> outcome" where
  "tp_call Insert = InsertDecorator_tp_call"
| "tp_call Remove = RemoveDecorator_tp_call"
| "tp_call Move = MoveDecorator_tp_call"
| "tp_call Reset = ResetDecorator_tp_call"

text \<open>The structural-change primitives among the events of a call, and their pairing:
  every begin is followed at once by its own end.\<close>

fun is_begin :: "event \<Rightarrow> bool" where
  "is_begin (BeginInsertRows _ _) = True"
| "is_begin (BeginRemoveRows _ _) = True"
| "is_begin (BeginMoveRows _ _ _) = True"
| "is_begin BeginResetModel = True"
| "is_begin _ = False"

fun is_end :: "event \<Rightarrow> bool" where
  "is_end EndInsertRows = True"
| "is_end EndRemoveRows = True"
| "is_end EndMoveRows = True"
| "is_end EndResetModel = True"
| "is_end _ = False"

fun is_call :: "event \<Rightarrow> bool" where
  "is_call (CallPython _ _) = True"
| "is_call _ = False"

fun closes :: "event \<Rightarrow> event \<Rightarrow> bool" where
  "closes (BeginInsertRows _ _) EndInsertRows = True"
| "closes (BeginRemoveRows _ _) EndRemoveRows = True"
| "closes (BeginMoveRows _ _ _) EndMoveRows = True"
| "closes BeginResetModel EndResetModel = True"
| "closes _ _ = False"

definition structural :: "event list \<Rightarrow> event list" where
  "structural ev = filter (\<lambda>e. is_begin e \<or> is_end e) ev"

fun paired :: "event list \<Rightarrow> bool" where
  "paired [] = True"
| "paired [_] = False"
| "paired (b # e # rest) = (closes b e \<and> paired rest)"

text \<open>The argument that a call supplies for the parameter of a given name, by the calling
  convention of Python: positionally, at the place the name has among the parameters
  after the receiver, or else by keyword.\<close>

definition supplied ::
  "pyfunc \<Rightarrow> pyobj list \<Rightarrow> (string \<times> pyobj) list option \<Rightarrow> string \<Rightarrow> pyobj option" where
  "supplied f args kwds name =
     (let params = (case fn_code f of Some (names, k) \<Rightarrow> tl (take k names) | None \<Rightarrow> []);
          by_keyword = (case kwds of None \<Rightarrow> None | Some k \<Rightarrow> map_of k name)
      in case arg_pos name params of
           Some p \<Rightarrow> if p < length args then Some (args ! p) else by_keyword
         | None \<Rightarrow> by_keyword)"

text \<open>Registries, methods and decorators to run the model on: empty registries, a
  Python function with the given parameter names that returns or raises the given
  result, a decorator bound to a backend, and the registry of UI-instantiated objects
  with one adapter.\<close>

definition no_registries :: registries where
  "no_registries =
     \<lparr>s_bridgeMap = Map.empty, s_typeModelMap = Map.empty, type_handler = Map.empty,
      type_metaobject = Map.empty, qml_singletons = [], qml_types = []\<rparr>"

definition py_method :: "string list \<Rightarrow> pyresult \<Rightarrow> pyfunc" where
  "py_method names r =
     \<lparr>fn_code = Some (names, length names), fn_returns = None, fn_get = None,
      fn_call = (\<lambda>W _ _. (r, W))\<rparr>"

definition bound_to :: "pyfunc \<Rightarrow> pyref \<Rightarrow> decorator" where
  "bound_to f b = \<lparr>m_wrapped_func = Some f, m_backend_instance = Some b\<rparr>"

definition ui_instances :: "pyref \<Rightarrow> adapter \<Rightarrow> registries" where
  "ui_instances b a = no_registries\<lparr>s_typeModelMap := [b \<mapsto> a]\<rparr>"

definition remove_method :: "pyresult \<Rightarrow> pyfunc" where
  "remove_method r = py_method [''self'', ''index''] r"


definition move_method :: pyfunc where
  "move_method = py_method [''self'', ''from_index'', ''to_index''] (Returned PyNone)"

definition insert_method :: pyfunc where
  "insert_method = py_method [''self'', ''index'', ''item''] (Returned PyNone)"

definition list_model :: registries where
  "list_model = ui_instances 1 (adapter_of (Some 1) List True)"

definition append_method :: pyfunc where
  "append_method = py_method [''self'', ''item''] (Returned PyNone)"

definition callable_object :: pyfunc where
  "callable_object =
     \<lparr>fn_code = None, fn_returns = None, fn_get = None,
      fn_call = (\<lambda>W _ _. (Returned PyNone, W))\<rparr>"


section \<open>qt\_metacall: a method invoked from the UI\<close>

text \<open>A method of the synthesized description, and the methods that an attribute lookup
  on a backend object finds: what a call does to the world.\<close>

record metamethod =
  mm_name :: string
  mm_parameterCount :: nat
  mm_typeName :: string

type_synonym pymethods =
  "pyref \<Rightarrow> string \<Rightarrow> (pyworld \<Rightarrow> pyobj list \<Rightarrow> pyresult \<times> pyworld) option"

text \<open>The lambda \<open>convertVariantToModel\<close>, for a variant that holds a
  \<open>PyObjectWrapper\<close>: the object registered by \<open>bridge_instance\<close> is replaced by its
  model.\<close>

definition convertVariantToModel :: "registries \<Rightarrow> qvariant \<Rightarrow> qvariant" where
  "convertVariantToModel G v =
     (case v of
        QPyObjectWrapper (PyInstance r) \<Rightarrow>
          (case s_bridgeMap G r of Some bridge \<Rightarrow> QModelPtr r | None \<Rightarrow> v)
      | _ \<Rightarrow> v)"

text \<open>
  The end of the \<open>InvokeMetaMethod\<close> branch: what becomes of the object that the Python
  method returned.  The slot is \<open>args[0]\<close>, the storage of the return value (absent when
  the pointer is null).
\<close>

definition deliver_result ::
  "pyside \<Rightarrow> registries \<Rightarrow> metamethod \<Rightarrow> qvariant option \<Rightarrow> pyobj
   \<Rightarrow> qvariant option \<times> event list" where
  "deliver_result E G method slot result =
     (if mm_typeName method \<noteq> ''void'' \<and> mm_typeName method \<noteq> [] \<and> slot \<noteq> None then
        (case pyObject2VariantOpt E (Some result) of
           Some v \<Rightarrow> (Some (convertVariantToModel G v), [])
         | None \<Rightarrow>
             (slot,
              [LogWarning
                 (''Failed to convert return value for method '' @ mm_name method
                  @ '' with return type '' @ mm_typeName method)]))
      else (slot, []))"

text \<open>
  The \<open>InvokeMetaMethod\<close> branch of \<open>qt_metacall\<close> for the method that the index
  selects: the return slot after the call, the events, the Python error pending, and the
  world.  The arguments are taken to be plain variants (no \<open>QJSValue\<close> among them).
\<close>

definition invoke_method ::
  "pyside \<Rightarrow> registries \<Rightarrow> pymethods \<Rightarrow> pyworld \<Rightarrow> pyref \<Rightarrow> metamethod
   \<Rightarrow> qvariant option \<Rightarrow> qvariant list
   \<Rightarrow> qvariant option \<times> event list \<times> pyerr option \<times> pyworld" where
  "invoke_method E G M W backend method slot args =
     (case M backend (mm_name method) of
        None \<Rightarrow>
          (slot,
           [LogWarning (''Failed to get Python method: '' @ mm_name method),
            LogException ''qt_metacall: get Python method''
              (Some (AttributeError, mm_name method))],
           Some (AttributeError, mm_name method), W)
      | Some callable \<Rightarrow>
          (let pyArgs = map (variant2PyObject E) (take (mm_parameterCount method) args)
           in case callable W pyArgs of
                (Raised e, W') \<Rightarrow>
                  (slot,
                   [CallPython pyArgs None,
                    LogException ''qt_metacall: call Python method'' (Some e)],
                   Some e, W')
              | (Returned r, W') \<Rightarrow>
                  (case deliver_result E G method slot r of
                     (slot', ev) \<Rightarrow> (slot', CallPython pyArgs None # ev, None, W'))))"

section \<open>autoqmlbridge.cpp: registration\<close>

text \<open>
  What introspection sees of a Python type: its \<open>tp_name\<close> and, for the names of
  \<open>dir(type)\<close>, what the attribute is.  A property carries the \<open>str()\<close> of its getter's
  return annotation and the first type argument of that annotation; a bracket decorator
  carries its data; another callable carries the chain of \<open>__wrapped__\<close> that leads to a
  code object (with its \<open>co_argcount\<close>) or to none, and the \<open>tp_name\<close> of its return
  annotation.
\<close>

datatype pycallable = Code nat | Wrapper pycallable | Opaque

datatype pyattr =
    AttrProperty "string option" "pyref option"
  | AttrDecorator decorator
  | AttrFunction pycallable "string option"
  | AttrOther

record pytypes =
  type_of :: "pyref \<Rightarrow> pyref"
  class_name :: "pyref \<Rightarrow> string"
  class_dir :: "pyref \<Rightarrow> (string \<times> pyattr) list"

fun unwrap_code :: "pycallable \<Rightarrow> nat option" where
  "unwrap_code (Code n) = Some n"
| "unwrap_code (Wrapper c) = unwrap_code c"
| "unwrap_code Opaque = None"

fun PyCallable_Check :: "pyattr \<Rightarrow> bool" where
  "PyCallable_Check (AttrDecorator _) = True"
| "PyCallable_Check (AttrFunction _ _) = True"
| "PyCallable_Check _ = False"

definition getReturnTypeName :: "string option \<Rightarrow> string \<Rightarrow> string \<times> event list" where
  "getReturnTypeName annotation methodName =
     (case annotation of
        Some name \<Rightarrow>
          (if name = ''list'' then (''QVariantList'', [])
           else if name = ''dict'' then (''QVariantMap'', [])
           else (''QVariant'', []))
      | None \<Rightarrow>
          (''void'',
           [LogWarning (''Method '' @ methodName
              @ '' has no return type annotation, defaulting to '' @ [CHR 0x27] @ ''void''
              @ [CHR 0x27])]))"

text \<open>The parameter list of a slot: \<open>QVariant\<close> for every parameter after the first.\<close>

fun qvariant_params :: "nat \<Rightarrow> string" where
  "qvariant_params 0 = []"
| "qvariant_params (Suc 0) = ''QVariant''"
| "qvariant_params (Suc (Suc n)) = ''QVariant, '' @ qvariant_params (Suc n)"

definition slot_signature :: "string \<Rightarrow> nat \<Rightarrow> string" where
  "slot_signature methodName argcount =
     methodName @ ''('' @ qvariant_params (argcount - 1) @ '')''"

definition addSlot :: "meta_builder \<Rightarrow> string \<Rightarrow> string \<Rightarrow> meta_builder" where
  "addSlot B signature returnType = B\<lparr>mb_slots := mb_slots B @ [(signature, returnType)]\<rparr>"

definition missing_wrapped_func :: "string \<Rightarrow> pyerr" where
  "missing_wrapped_func methodName =
     (RuntimeError,
      ''Cannot introspect Python method '' @ [CHR 0x27] @ methodName @ [CHR 0x27]
      @ '' (missing wrapped_func attribute in insert/remove/move/edit/reset decorator)'')"

definition missing_code :: "string \<Rightarrow> pyerr" where
  "missing_code methodName =
     (RuntimeError,
      ''Cannot introspect Python method '' @ [CHR 0x27] @ methodName @ [CHR 0x27]
      @ '' (missing __code__ attribute)'')"

definition skipped_method :: "string \<Rightarrow> bool" where
  "skipped_method methodName =
     ((case methodName of c # _ \<Rightarrow> c = CHR ''_'' | [] \<Rightarrow> False) \<or> methodName = ''data'')"

text \<open>
  \<open>registerMethodsFromType\<close>, as the loop over \<open>dir(type)\<close>: the builder, the
  attributes as the loop leaves them (a decorator it has come by is bound to the backend
  in instance mode), the Python error it has set, and the events.  On an error the
  function returns at once.
\<close>

fun registerMethodsFromType ::
  "pyref option \<Rightarrow> (string \<times> pyattr) list \<Rightarrow> meta_builder
   \<Rightarrow> meta_builder \<times> (string \<times> pyattr) list \<times> pyerr option \<times> event list" where
  "registerMethodsFromType backend [] B = (B, [], None, [])"
| "registerMethodsFromType backend ((methodName, attr) # rest) B =
     (if \<not> PyCallable_Check attr \<or> skipped_method methodName then
        (case registerMethodsFromType backend rest B of
           (B', rest', err, ev) \<Rightarrow> (B', (methodName, attr) # rest', err, ev))
      else
        (case attr of
           AttrDecorator d \<Rightarrow>
             (let (returnType, w) =
                    getReturnTypeName
                      (case m_wrapped_func d of Some f \<Rightarrow> fn_returns f | None \<Rightarrow> None)
                      methodName;
                  d' = (case backend of Some b \<Rightarrow> setBackendInstance d b | None \<Rightarrow> d)
              in case m_wrapped_func d of
                   None \<Rightarrow>
                     (B, (methodName, AttrDecorator d') # rest,
                      Some (missing_wrapped_func methodName), w)
                 | Some f \<Rightarrow>
                     (case fn_code f of
                        None \<Rightarrow>
                          (B, (methodName, AttrDecorator d') # rest,
                           Some (missing_code methodName), w)
                      | Some (varnames, argcount) \<Rightarrow>
                          (case registerMethodsFromType backend rest
                                  (addSlot B (slot_signature methodName argcount) returnType) of
                             (B', rest', err, ev) \<Rightarrow>
                               (B', (methodName, AttrDecorator d') # rest', err, w @ ev))))
         | AttrFunction c annotation \<Rightarrow>
             (let (returnType, w) = getReturnTypeName annotation methodName
              in case unwrap_code c of
                   None \<Rightarrow> (B, (methodName, attr) # rest, Some (missing_code methodName), w)
                 | Some argcount \<Rightarrow>
                     (case registerMethodsFromType backend rest
                             (addSlot B (slot_signature methodName argcount) returnType) of
                        (B', rest', err, ev) \<Rightarrow>
                          (B', (methodName, attr) # rest', err, w @ ev)))
         | _ \<Rightarrow>
             (case registerMethodsFromType backend rest B of
                (B', rest', err, ev) \<Rightarrow> (B', (methodName, attr) # rest', err, ev))))"

text \<open>helpers.cpp: the type hints that denote a list, and the type of a property.\<close>

definition isListTypeHint :: "string \<Rightarrow> bool" where
  "isListTypeHint t =
     (sublist ''list['' t \<or> prefix ''typing.List'' t \<or> prefix ''List['' t)"

definition determinePropertyType :: "registries \<Rightarrow> string option \<Rightarrow> pyref option \<Rightarrow> string" where
  "determinePropertyType G hint element =
     (case hint of
        None \<Rightarrow> ''QVariant''
      | Some typeString \<Rightarrow>
          if isListTypeHint typeString then
            (if (case element of Some t \<Rightarrow> type_metaobject G t \<noteq> None | None \<Rightarrow> False)
             then ''QQmlListProperty<QObject>'' else ''QVariantList'')
          else if sublist ''dict['' typeString \<or> prefix ''typing.Dict'' typeString
          then ''QVariantMap''
          else ''QVariant'')"

text \<open>\<open>registerPropertiesFromType\<close>: for every property of \<open>dir(type)\<close> the notify
  signal and the property, the calls into PySide being taken to succeed.\<close>

fun registerPropertiesFromType ::
  "registries \<Rightarrow> (string \<times> pyattr) list \<Rightarrow> meta_builder \<Rightarrow> meta_builder" where
  "registerPropertiesFromType G [] B = B"
| "registerPropertiesFromType G ((attrName, AttrProperty hint element) # rest) B =
     registerPropertiesFromType G rest
       (B\<lparr>mb_signals := mb_signals B @ [attrName @ ''Changed()''],
          mb_properties := mb_properties B
            @ [(attrName, determinePropertyType G hint element)]\<rparr>)"
| "registerPropertiesFromType G (_ # rest) B = registerPropertiesFromType G rest B"

text \<open>
  \<open>inferDataType\<close> of helpers.cpp.  The attributes of an instance are taken to be those
  of its type.
\<close>

definition isDataClassList :: "pyworld \<Rightarrow> pyobj \<Rightarrow> bool" where
  "isDataClassList W listObj =
     (case listObj of
        PyList (firstItem # _) \<Rightarrow> firstItem \<noteq> PyNone \<and> dataclass_fields W firstItem \<noteq> None
      | PyTuple (firstItem # _) \<Rightarrow> firstItem \<noteq> PyNone \<and> dataclass_fields W firstItem \<noteq> None
      | _ \<Rightarrow> False)"

definition inferDataType :: "pyworld \<Rightarrow> pytypes \<Rightarrow> pyref \<Rightarrow> DataType effect" where
  "inferDataType W T instance =
     (case map_of (class_dir T (type_of T instance)) ''data'' of
        None \<Rightarrow> (Unknown, [], None)
      | Some attr \<Rightarrow>
          if \<not> PyCallable_Check attr then (Unknown, [], None)
          else
            (let hinted =
               (case data_hint_str W instance of
                  None \<Rightarrow> None
                | Some typeString \<Rightarrow>
                    if isListTypeHint typeString \<and> \<not> sublist ''str'' typeString
                       \<and> \<not> sublist ''int'' typeString \<and> \<not> sublist ''float'' typeString
                    then Some (DataClassList, [CallData instance])
                    else if isListTypeHint typeString \<or> typeString = ''list''
                    then Some (List, [])
                    else None)
             in case hinted of
                  Some (t, ev) \<Rightarrow> (t, ev, None)
                | None \<Rightarrow>
                    (case call_data W instance of
                       Raised e \<Rightarrow>
                         (Unknown,
                          [CallData instance,
                           LogException
                             ''helpers.cpp: error calling instance.data() in inferDataType''
                             (Some e)], Some e)
                     | Returned d \<Rightarrow>
                         if PyList_Check d \<or> PyTuple_Check d then
                           (if isDataClassList W d then (DataClassList, [CallData instance], None)
                            else (List, [CallData instance], None))
                         else if (case d of PyInstance r \<Rightarrow> tp_name W r = ''DataFrame''
                                  | _ \<Rightarrow> False)
                         then (Table, [CallData instance], None)
                         else if sequence_check W d \<and> \<not> PyUnicode_Check d
                         then (List, [CallData instance], None)
                         else (Unknown, [CallData instance], None))))"

text \<open>
  The constructors of \<open>AutoQmlBridgePrivate\<close> with \<open>setupMetaObjectBuilder\<close>: for an
  instance (with its model, created before the properties and methods are registered)
  and for a type.  They return the handle, the attributes of the type as the
  registration of the methods leaves them, the events and the Python error pending.
\<close>

definition builder_infos :: "string \<Rightarrow> meta_builder" where
  "builder_infos defaultProperty =
     \<lparr>mb_infos =
        [(''QML.Element'', ''auto''), (''QML.ParserStatus'', ''QQmlParserStatus'')]
        @ (if defaultProperty \<noteq> [] then [(''DefaultProperty'', defaultProperty)] else []),
      mb_signals = [], mb_properties = [], mb_slots = []\<rparr>"

definition new_instance_bridge ::
  "registries \<Rightarrow> pyworld \<Rightarrow> pytypes \<Rightarrow> pyref \<Rightarrow> DataType
   \<Rightarrow> bridge_private \<times> (string \<times> pyattr) list \<times> event list \<times> pyerr option" where
  "new_instance_bridge G W T backend datatype =
     (case new_AutoQmlBridgeModel W (Some backend) datatype of
        (model, ev1, err1) \<Rightarrow>
          (case registerMethodsFromType (Some backend) (class_dir T (type_of T backend))
                  (registerPropertiesFromType G (class_dir T (type_of T backend))
                     (builder_infos [])) of
             (B, attrs, err2, ev2) \<Rightarrow>
               (\<lparr>b_metaObjectBuilder = Some B, b_backend = Some backend,
                 b_pythonType = Some (type_of T backend), b_model = Some model,
                 b_mode = Instance, b_datatype = datatype, b_defaultProperty = []\<rparr>,
                attrs, ev1 @ ev2,
                (case err2 of Some e \<Rightarrow> Some e | None \<Rightarrow> err1))))"

definition new_type_bridge ::
  "registries \<Rightarrow> pytypes \<Rightarrow> pyref \<Rightarrow> string
   \<Rightarrow> bridge_private \<times> (string \<times> pyattr) list \<times> event list \<times> pyerr option" where
  "new_type_bridge G T type defaultProperty =
     (case registerMethodsFromType None (class_dir T type)
             (registerPropertiesFromType G (class_dir T type)
                (builder_infos defaultProperty)) of
        (B, attrs, err, ev) \<Rightarrow>
          (\<lparr>b_metaObjectBuilder = Some B, b_backend = None, b_pythonType = Some type,
            b_model = None, b_mode = Type, b_datatype = Unknown,
            b_defaultProperty = defaultProperty\<rparr>,
           attrs, ev, err))"

text \<open>What a registration call leaves: the object returned (null on an error), the
  Python error pending, the events, the registries and the types.\<close>

record registration =
  r_result :: "pyobj option"
  r_error :: "pyerr option"
  r_events :: "event list"
  r_registries :: registries
  r_types :: pytypes

definition no_data_method :: pyerr where
  "no_data_method =
     (TypeError,
      ''The class wrapped with bridge_instance must have a data() method that ''
      @ ''returns the data to be passed to QML'')"

definition unknown_data_type :: pyerr where
  "unknown_data_type =
     (TypeError,
      ''Could not infer data type from data() method. ''
      @ ''Please add a return type hint to your data() method, e.g.:'' @ [CHR 0x0A]
      @ ''  def data(self) -> list[str]: ...  # For simple lists'' @ [CHR 0x0A]
      @ ''  def data(self) -> List[MyDataClass]: ...  # For dataclass lists''
      @ [CHR 0x0A, CHR 0x0A]
      @ ''Supported return types:'' @ [CHR 0x0A]
      @ ''  - list[str], list[int], list[float] (primitive lists)'' @ [CHR 0x0A]
      @ ''  - List[DataClass], list[DataClass] (dataclass lists)'')"

text \<open>
  \<open>bridge_instance(instance, name, uri)\<close>.  After the handle is constructed the
  function finalizes the description, registers the model as a singleton, stores the
  handle in \<open>s_bridgeMap\<close> and returns \<open>None\<close>; it does not look at the Python error
  state in between.
\<close>

definition bridge_instance ::
  "registries \<Rightarrow> pyworld \<Rightarrow> pytypes \<Rightarrow> pyref \<Rightarrow> string \<Rightarrow> string \<Rightarrow> registration" where
  "bridge_instance G W T instance name_str uri_str =
     (if map_of (class_dir T (type_of T instance)) ''data'' = None then
        \<lparr>r_result = None, r_error = Some no_data_method,
         r_events = [LogException ''bridge_instance'' (Some no_data_method)],
         r_registries = G, r_types = T\<rparr>
      else
        (case inferDataType W T instance of
           (dataType, ev0, err0) \<Rightarrow>
             if dataType = Unknown then
               \<lparr>r_result = None, r_error = Some unknown_data_type,
                r_events = ev0 @ [LogException ''bridge_instance'' (Some unknown_data_type)],
                r_registries = G, r_types = T\<rparr>
             else
               (case new_instance_bridge G W T instance dataType of
                  (bridge, attrs, ev, err) \<Rightarrow>
                    \<lparr>r_result = Some PyNone,
                     r_error = (case err of Some e \<Rightarrow> Some e | None \<Rightarrow> err0),
                     r_events = ev0 @ ev,
                     r_registries =
                       G\<lparr>qml_singletons := qml_singletons G @ [(uri_str, name_str)],
                         s_bridgeMap := (s_bridgeMap G)(instance \<mapsto> bridge)\<rparr>,
                     r_types =
                       T\<lparr>class_dir := (class_dir T)(type_of T instance := attrs)\<rparr>\<rparr>)))"

text \<open>
  \<open>QVersionNumber::fromString\<close>: the decimal numbers, separated by periods, that the
  string begins with.
\<close>

definition is_digit :: "char \<Rightarrow> bool" where
  "is_digit c = (48 \<le> (of_char c :: nat) \<and> (of_char c :: nat) \<le> 57)"

definition digits_value :: "string \<Rightarrow> nat" where
  "digits_value ds = fold (\<lambda>c n. 10 * n + (of_char c - 48)) ds (0 :: nat)"

function fromString :: "string \<Rightarrow> nat list" where
  "fromString s =
     (if takeWhile is_digit s = [] then []
      else digits_value (takeWhile is_digit s)
           # (case dropWhile is_digit s of
                c # rest \<Rightarrow> if c = CHR ''.'' then fromString rest else []
              | [] \<Rightarrow> []))"
  by pat_completeness auto
termination
proof (relation "measure length")
  fix s c rest
  assume "dropWhile is_digit s = c # rest"
  then have "length (c # rest) \<le> length s"
    by (metis length_dropWhile_le)
  then show "(rest, s) \<in> measure length" by simp
qed simp

declare fromString.simps [simp del]

definition bad_version :: pyerr where
  "bad_version =
     (ValueError,
      ''version must be in format '' @ [CHR 0x27] @ ''major.minor'' @ [CHR 0x27])"

text \<open>
  \<open>bridge_type(type, uri, version, name, default_property)\<close>.  \<open>qmlregister\<close> is the
  QML engine's answer to the registration: a type id, or -1.  Storing the capsules on the
  type is taken to succeed.
\<close>

definition bridge_type ::
  "(string \<Rightarrow> nat \<Rightarrow> nat \<Rightarrow> string \<Rightarrow> int) \<Rightarrow> registries \<Rightarrow> pytypes \<Rightarrow> pyref
   \<Rightarrow> string \<Rightarrow> string \<Rightarrow> string option \<Rightarrow> string option \<Rightarrow> registration" where
  "bridge_type qmlregister G T type uri version qmlName defaultProperty =
     (case fromString version of
        versionMajor # versionMinor # _ \<Rightarrow>
          (let qml_name = (case qmlName of Some n \<Rightarrow> n | None \<Rightarrow> class_name T type)
           in if type_handler G type \<noteq> None then
                \<lparr>r_result = Some PyNone, r_error = None,
                 r_events = [LogWarning (''Python type '' @ qml_name @ '' is already registered'')],
                 r_registries = G, r_types = T\<rparr>
              else
                (case new_type_bridge G T type
                        (case defaultProperty of Some p \<Rightarrow> p | None \<Rightarrow> []) of
                   (bridge, attrs, ev, err) \<Rightarrow>
                     (let G' = G\<lparr>type_handler := (type_handler G)(type \<mapsto> bridge),
                                 type_metaobject :=
                                   (type_metaobject G)
                                     (type := b_metaObjectBuilder bridge)\<rparr>;
                          T' = T\<lparr>class_dir := (class_dir T)(type := attrs)\<rparr>
                      in if qmlregister uri versionMajor versionMinor qml_name = - 1 then
                           \<lparr>r_result = None,
                            r_error = Some (RuntimeError,
                                        ''Failed to register type with QML engine''),
                            r_events =
                              ev @ [LogWarning (''QML registration failed for type ''
                                      @ [CHR 0x27] @ qml_name @ [CHR 0x27])],
                            r_registries = G', r_types = T'\<rparr>
                         else
                           \<lparr>r_result = Some PyNone, r_error = err, r_events = ev,
                            r_registries =
                              G'\<lparr>qml_types := qml_types G'
                                    @ [(uri, versionMajor, versionMinor, qml_name)]\<rparr>,
                            r_types = T'\<rparr>)))
      | _ \<Rightarrow>
          \<lparr>r_result = None, r_error = Some bad_version, r_events = [],
           r_registries = G, r_types = T\<rparr>)"

text \<open>A method of the description that returns a \<open>QVariant\<close>, backends whose every
  method returns one fixed object, and the warning of a failed conversion.\<close>

definition count_method :: metamethod where
  "count_method = \<lparr>mm_name = ''count'', mm_parameterCount = 0, mm_typeName = ''QVariant''\<rparr>"

definition methods_returning :: "pyobj \<Rightarrow> pymethods" where
  "methods_returning r = (\<lambda>_ _. Some (\<lambda>W _. (Returned r, W)))"

definition conversion_failure :: "metamethod \<Rightarrow> event" where
  "conversion_failure method =
     LogWarning (''Failed to convert return value for method '' @ mm_name method
                 @ '' with return type '' @ mm_typeName method)"









section \<open>Properties of the conversion\<close>


lemma long_to_int_of_int:
  "long_to_int (word_of_int v) = (word_of_int v :: c_int)"
  unfolding long_to_int_def
  by (simp add: unsigned_of_int word_of_int_eq_iff take_bit_take_bit min_def)

lemma sint_int_range:
  assumes "fits_int v"
  shows "sint (word_of_int v :: c_int) = v"
  using assms unfolding fits_int_def
  by (simp add: sint_sbintrunc' signed_take_bit_int_eq_self)

lemma fits_int_long: "fits_int v \<Longrightarrow> fits_long v"
  unfolding fits_int_def fits_long_def by simp






section \<open>Properties of the model adapter\<close>




















text \<open>
  C7 fails on the code for a \<open>bool\<close> element.  \<open>data\<close> tests \<open>PyLong_Check\<close> before
  \<open>PyBool_Check\<close>, and \<open>bool\<close> is a subclass of \<open>int\<close>: a \<open>bool\<close> element is returned
  as the integer 0 or 1, never as a boolean.  For the list \<open>[True]\<close>, row 0 and the
  display role the result is the integer 1.
\<close>

theorem data_bool_element_is_int:
  "element_to_variant W (PyBool b) = (QInt (if b then 1 else 0), None)
   \<and> data (world_of (Returned (PyList [PyBool True]))) (adapter_of (Some 1) List False)
       \<lparr>idx_valid = True, idx_row = 0\<rparr> DisplayRole
     = (QInt 1, [CallData 1], None)"
  by (simp add: element_to_variant_def data_def world_of_def adapter_of_def long_to_int_def)

section \<open>Properties of the bracket decorators\<close>

lemma structural_append: "structural (xs @ ys) = structural xs @ structural ys"
  by (simp add: structural_def)

lemma structural_rowCount:
  "rowCount W a pv = (n, ev, p) \<Longrightarrow> structural ev = []"
  by (auto simp: rowCount_def structural_def split: if_splits option.splits pyresult.splits pyobj.splits)

lemma structural_fieldNames:
  "model_getDataClassFieldNames W a = (ns, ev, p) \<Longrightarrow> structural ev = []"
  by (auto simp: model_getDataClassFieldNames_def structural_def Let_def
      split: if_splits option.splits pyresult.splits pyobj.splits list.splits)

lemma structural_setup:
  "setupDataClassRoles W a = (a', ev, p) \<Longrightarrow> structural ev = []"
  by (auto simp: setupDataClassRoles_def structural_fieldNames split: prod.splits)

lemma structural_endReset:
  "endReset W a = (a', ev, p) \<Longrightarrow> structural ev = [EndResetModel]"
  by (auto simp: endReset_def structural_append structural_setup split: if_splits prod.splits)
     (simp_all add: structural_def)

lemma structural_createBound:
  "createBoundMethod f = (r, ev) \<Longrightarrow> structural ev = []"
  by (auto simp: createBoundMethod_def structural_def split: option.splits)

lemma structural_call_wrapped:
  "is_end e \<Longrightarrow> \<not> is_begin e \<Longrightarrow>
   structural (o_events (call_wrapped c f W args kwds earlier e m p)) = structural earlier @ [e]"
  by (auto simp: call_wrapped_def structural_def split: prod.splits pyresult.splits)

lemma structural_getModel:
  "getModelForDecorator G d = (m, ev) \<Longrightarrow> structural ev = []"
  by (auto simp: getModelForDecorator_def structural_def split: option.splits)

lemma structural_failed: "structural (o_events (failed W m e ev)) = structural ev"
  by (simp add: failed_def)

lemma structural_log [simp]:
  "structural [LogException c x] = []" "structural [] = []"
  by (simp_all add: structural_def)

lemma paired_insert:
  "paired (structural (o_events (InsertDecorator_tp_call G W d args kwds)))"
proof (cases "validateDecoratorState d ''insert''")
  case (Inl e)
  then show ?thesis
    by (simp add: InsertDecorator_tp_call_def structural_failed)
next
  case (Inr fb)
  obtain f b where fb: "fb = (f, b)" by (cases fb)
  obtain m ev where g: "getModelForDecorator G d = (m, ev)" by force
  note sg = structural_getModel [OF g]
  show ?thesis
  proof (cases m)
    case None
    with Inr fb g sg show ?thesis
      by (simp add: InsertDecorator_tp_call_def structural_failed structural_append)
  next
    case (Some model)
    obtain be ev' where c: "createBoundMethod f = (be, ev')" by force
    note sc = structural_createBound [OF c]
    show ?thesis
    proof (cases be)
      case (Some e)
      with Inr fb g \<open>m = Some model\<close> c sc show ?thesis
        by (simp add: InsertDecorator_tp_call_def structural_failed)
    next
      case None
      note bound = this
      show ?thesis
      proof (cases "fst (extractArgumentByName f args kwds ''index'' False)")
        case (Some index_obj)
        show ?thesis
        proof (cases "PyLong_AsLong index_obj")
          case (Inl e)
          with Inr fb g \<open>m = Some model\<close> c bound Some show ?thesis
            by (simp add: InsertDecorator_tp_call_def structural_failed)
        next
          case (Inr index)
          with \<open>validateDecoratorState d ''insert'' = Inr fb\<close> fb g \<open>m = Some model\<close> c bound Some
          show ?thesis
            by (simp add: InsertDecorator_tp_call_def structural_call_wrapped)
               (simp add: structural_def)
        qed
      next
        case None
        obtain n ev2 p where r: "rowCount W model False = (n, ev2, p)"
          by (cases "rowCount W model False") auto
        note sr = structural_rowCount [OF r]
        from Inr fb g \<open>m = Some model\<close> c bound None r sr show ?thesis
          by (simp add: InsertDecorator_tp_call_def structural_call_wrapped structural_append)
             (simp add: structural_def)
      qed
    qed
  qed
qed

lemma paired_remove:
  "paired (structural (o_events (RemoveDecorator_tp_call G W d args kwds)))"
proof (cases "validateDecoratorState d ''remove''")
  case (Inl e)
  then show ?thesis
    by (simp add: RemoveDecorator_tp_call_def structural_failed)
next
  case (Inr fb)
  obtain f b where fb: "fb = (f, b)" by (cases fb)
  obtain m ev where g: "getModelForDecorator G d = (m, ev)" by force
  note sg = structural_getModel [OF g]
  show ?thesis
  proof (cases m)
    case None
    with Inr fb g sg show ?thesis
      by (simp add: RemoveDecorator_tp_call_def structural_failed structural_append)
  next
    case (Some model)
    obtain io err where x: "extractArgumentByName f args kwds ''index'' True = (io, err)"
      by force
    show ?thesis
    proof (cases io)
      case None
      with Inr fb g \<open>m = Some model\<close> x show ?thesis
        by (simp add: RemoveDecorator_tp_call_def)
    next
      case (Some index_obj)
      note found = this
      show ?thesis
      proof (cases "PyLong_AsLong index_obj")
        case (Inl e)
        with Inr fb g \<open>m = Some model\<close> x found show ?thesis
          by (simp add: RemoveDecorator_tp_call_def structural_failed)
      next
        case (Inr row)
        obtain be ev' where c: "createBoundMethod f = (be, ev')" by force
        note sc = structural_createBound [OF c]
        show ?thesis
        proof (cases be)
          case (Some e)
          with \<open>validateDecoratorState d ''remove'' = Inr fb\<close> fb g \<open>m = Some model\<close> x found
            Inr c sc
          show ?thesis
            by (simp add: RemoveDecorator_tp_call_def structural_failed structural_append)
               (simp add: structural_def)
        next
          case None
          with \<open>validateDecoratorState d ''remove'' = Inr fb\<close> fb g \<open>m = Some model\<close> x found
            Inr c
          show ?thesis
            by (simp add: RemoveDecorator_tp_call_def structural_call_wrapped)
               (simp add: structural_def)
        qed
      qed
    qed
  qed
qed

lemma paired_move:
  "paired (structural (o_events (MoveDecorator_tp_call G W d args kwds)))"
proof (cases "validateDecoratorState d ''move''")
  case (Inl e)
  then show ?thesis
    by (simp add: MoveDecorator_tp_call_def structural_failed)
next
  case (Inr fb)
  obtain f b where fb: "fb = (f, b)" by (cases fb)
  obtain m ev where g: "getModelForDecorator G d = (m, ev)" by force
  note sg = structural_getModel [OF g]
  show ?thesis
  proof (cases m)
    case None
    with Inr fb g sg show ?thesis
      by (simp add: MoveDecorator_tp_call_def structural_failed structural_append)
  next
    case (Some model)
    obtain fo e1 where x1: "extractArgumentByName f args kwds ''from_index'' True = (fo, e1)"
      by force
    obtain to e2 where x2: "extractArgumentByName f args kwds ''to_index'' True = (to, e2)"
      by force
    show ?thesis
    proof (cases "fo = None \<or> to = None")
      case True
      with Inr fb g \<open>m = Some model\<close> x1 x2 show ?thesis
        by (cases fo; cases to) (simp_all add: MoveDecorator_tp_call_def Let_def)
    next
      case False
      then obtain from_obj to_obj where ft: "fo = Some from_obj" "to = Some to_obj"
        by auto
      show ?thesis
      proof (cases "PyLong_AsLong from_obj")
        case (Inl e)
        with Inr fb g \<open>m = Some model\<close> x1 x2 ft show ?thesis
          by (cases "PyLong_AsLong to_obj")
             (simp_all add: MoveDecorator_tp_call_def structural_failed)
      next
        case (Inr fromIndex)
        note fi = this
        show ?thesis
        proof (cases "PyLong_AsLong to_obj")
          case (Inl e)
          with \<open>validateDecoratorState d ''move'' = Inr fb\<close> fb g \<open>m = Some model\<close> x1 x2 ft fi
          show ?thesis
            by (simp add: MoveDecorator_tp_call_def structural_failed)
        next
          case (Inr toIndex)
          obtain be ev' where c: "createBoundMethod f = (be, ev')" by force
          note sc = structural_createBound [OF c]
          show ?thesis
          proof (cases be)
            case (Some e)
            with \<open>validateDecoratorState d ''move'' = Inr fb\<close> fb g \<open>m = Some model\<close> x1 x2 ft fi
              Inr c sc
            show ?thesis
              by (simp add: MoveDecorator_tp_call_def structural_failed structural_append Let_def)
                 (simp add: structural_def)
          next
            case None
            with \<open>validateDecoratorState d ''move'' = Inr fb\<close> fb g \<open>m = Some model\<close> x1 x2 ft fi
              Inr c
            show ?thesis
              by (simp add: MoveDecorator_tp_call_def structural_call_wrapped Let_def)
                 (simp add: structural_def)
          qed
        qed
      qed
    qed
  qed
qed

lemma paired_reset:
  "paired (structural (o_events (ResetDecorator_tp_call G W d args kwds)))"
proof (cases "validateDecoratorState d ''reset''")
  case (Inl e)
  then show ?thesis
    by (simp add: ResetDecorator_tp_call_def structural_failed)
next
  case (Inr fb)
  obtain f b where fb: "fb = (f, b)" by (cases fb)
  obtain m ev where g: "getModelForDecorator G d = (m, ev)" by force
  note sg = structural_getModel [OF g]
  show ?thesis
  proof (cases m)
    case None
    with Inr fb g sg show ?thesis
      by (simp add: ResetDecorator_tp_call_def structural_failed structural_append)
  next
    case (Some model)
    obtain be ev' where c: "createBoundMethod f = (be, ev')" by force
    note sc = structural_createBound [OF c]
    show ?thesis
    proof (cases be)
      case (Some e)
      with Inr fb g \<open>m = Some model\<close> c sc show ?thesis
        by (simp add: ResetDecorator_tp_call_def structural_failed)
    next
      case None
      obtain r W' where k: "fn_call f W args kwds = (r, W')" by force
      obtain model' ev2 p where er: "endReset W' model = (model', ev2, p)"
        by (cases "endReset W' model") auto
      note se = structural_endReset [OF er]
      from Inr fb g \<open>m = Some model\<close> c None k er se show ?thesis
        by (cases r)
           (simp_all add: ResetDecorator_tp_call_def structural_append,
            simp_all add: structural_def)
    qed
  qed
qed


lemma arg_pos_None: "arg_pos n xs = None \<longleftrightarrow> n \<notin> set xs"
  by (induction xs) auto

lemma extract_supplied:
  assumes "fn_code f = Some (names, k)" and "distinct (take k names)"
  shows "fst (extractArgumentByName f args kwds name req) = supplied f args kwds name"
proof (cases "take k names")
  case Nil
  with assms show ?thesis
    by (auto simp: extractArgumentByName_def supplied_def Let_def)
next
  case (Cons x ys)
  with assms(2) have d: "x \<notin> set ys" by simp
  show ?thesis
  proof (cases "x = name")
    case True
    with d have "arg_pos name ys = None" by (simp add: arg_pos_None)
    with assms(1) Cons True show ?thesis
      by (simp add: extractArgumentByName_def supplied_def Let_def)
  next
    case False
    with assms(1) Cons show ?thesis
      by (cases "arg_pos name ys")
         (auto simp: extractArgumentByName_def supplied_def Let_def split: option.splits)
  qed
qed

lemma extract_no_code:
  "fn_code f = None \<Longrightarrow> fst (extractArgumentByName f args kwds name req) = None"
  by (simp add: extractArgumentByName_def Let_def)

lemma supplied_None_extract:
  assumes "\<forall>names k. fn_code f = Some (names, k) \<longrightarrow> distinct (take k names)"
    and "supplied f args kwds name = None"
  shows "fst (extractArgumentByName f args kwds name req) = None"
proof (cases "fn_code f")
  case None
  then show ?thesis by (rule extract_no_code)
next
  case (Some c)
  obtain names k where c: "c = (names, k)" by (cases c)
  with Some assms(1) have "distinct (take k names)" by simp
  with Some c assms(2) show ?thesis by (simp add: extract_supplied)
qed

lemma sint_long_range:
  assumes "fits_long v"
  shows "sint (word_of_int v :: c_long) = v"
  using assms unfolding fits_long_def
  by (simp add: sint_sbintrunc' signed_take_bit_int_eq_self)

lemma sless_long:
  assumes "fits_long a" "fits_long b"
  shows "(word_of_int a :: c_long) <s word_of_int b \<longleftrightarrow> a < b"
  by (simp add: word_sless_alt sint_long_range assms)

lemma unresolved_model:
  assumes "m_backend_instance d = Some b" "s_bridgeMap G b = None" "s_typeModelMap G b = None"
  shows "o_result (tp_call k G W d args kwds) = None
       \<and> o_error (tp_call k G W d args kwds) \<noteq> None
       \<and> \<not> list_ex is_call (o_events (tp_call k G W d args kwds))
       \<and> \<not> list_ex is_begin (o_events (tp_call k G W d args kwds))"
proof -
  have g: "getModelForDecorator G d =
     (None, [LogWarning
        ''getModelForDecorator: Backend instance not found in s_bridgeMap or s_typeModelMap''])"
    using assms by (simp add: getModelForDecorator_def)
  show ?thesis
  proof (cases "m_wrapped_func d")
    case None
    then have "validateDecoratorState d n = Inl (ValueError,
               ''@'' @ n
               @ '' decorator was not properly initialized - missing wrapped function'')" for n
      by (simp add: validateDecoratorState_def)
    then show ?thesis
      by (cases k)
         (simp_all add: InsertDecorator_tp_call_def RemoveDecorator_tp_call_def
            MoveDecorator_tp_call_def ResetDecorator_tp_call_def failed_def)
  next
    case (Some f)
    with assms(1) have "validateDecoratorState d n = Inr (f, b)" for n
      by (simp add: validateDecoratorState_def)
    with g show ?thesis
      by (cases k)
         (simp_all add: InsertDecorator_tp_call_def RemoveDecorator_tp_call_def
            MoveDecorator_tp_call_def ResetDecorator_tp_call_def failed_def)
  qed
qed

lemma extract_Some:
  assumes "fn_code f = Some (names, k)" and "distinct (take k names)"
    and "supplied f args kwds name = Some v"
  shows "extractArgumentByName f args kwds name req = (Some v, None)"
proof -
  have "fst (extractArgumentByName f args kwds name req) = Some v"
    using extract_supplied [OF assms(1,2)] assms(3) by simp
  then show ?thesis
    by (auto simp: extractArgumentByName_def Let_def split: if_splits)
qed

lemma structural_single_begin:
  "is_begin b \<Longrightarrow> structural [b] = [b]"
  by (simp add: structural_def)

lemmas fixture_defs =
  validateDecoratorState_def bound_to_def getModelForDecorator_def list_model_def
  ui_instances_def no_registries_def adapter_of_def world_of_def two_rows_def
  move_method_def insert_method_def append_method_def remove_method_def callable_object_def
  py_method_def

text \<open>
  C1.  Whatever a bracket decorator (\<open>insert\<close>, \<open>remove\<close>, \<open>move\<close>, \<open>reset\<close>) is
  called with, and whatever the wrapped method does (return, raise, fail to bind), the
  structural-change primitives among the events of the call pair up: each begin is
  followed by its own end before the call returns.  And when the backend instance of the
  decorator is in neither registry, the call returns null with a Python error set, and
  neither the wrapped method nor a begin primitive has been invoked.
\<close>

theorem brackets_closed:
  "paired (structural (o_events (tp_call k G W d args kwds)))
   \<and> (\<forall>b. m_backend_instance d = Some b \<and> s_bridgeMap G b = None \<and> s_typeModelMap G b = None
        \<longrightarrow> o_result (tp_call k G W d args kwds) = None
          \<and> o_error (tp_call k G W d args kwds) \<noteq> None
          \<and> \<not> list_ex is_call (o_events (tp_call k G W d args kwds))
          \<and> \<not> list_ex is_begin (o_events (tp_call k G W d args kwds)))"
proof -
  have 1: "paired (structural (o_events (tp_call k G W d args kwds)))"
    by (cases k) (simp_all add: paired_insert paired_remove paired_move paired_reset)
  from 1 unresolved_model [of d _ G k W args kwds] show ?thesis by blast
qed

theorem brackets_closed_witness:
  "m_backend_instance (bound_to (remove_method (Returned PyNone)) 1) = Some 1
   \<and> s_bridgeMap no_registries 1 = None \<and> s_typeModelMap no_registries 1 = None
   \<and> o_result (tp_call Remove no_registries (world_of (Returned two_rows))
        (bound_to (remove_method (Returned PyNone)) 1) [PyLong 1] None) = None
   \<and> o_error (tp_call Remove no_registries (world_of (Returned two_rows))
        (bound_to (remove_method (Returned PyNone)) 1) [PyLong 1] None) \<noteq> None
   \<and> \<not> list_ex is_call (o_events (tp_call Remove no_registries (world_of (Returned two_rows))
        (bound_to (remove_method (Returned PyNone)) 1) [PyLong 1] None))
   \<and> \<not> list_ex is_begin (o_events (tp_call Remove no_registries (world_of (Returned two_rows))
        (bound_to (remove_method (Returned PyNone)) 1) [PyLong 1] None))
   \<and> paired (structural (o_events (tp_call Remove list_model (world_of (Returned two_rows))
        (bound_to (remove_method (Raised (IndexError, ''pop index out of range''))) 1)
        [PyLong 1] None)))
   \<and> o_events (tp_call Remove list_model (world_of (Returned two_rows))
        (bound_to (remove_method (Raised (IndexError, ''pop index out of range''))) 1)
        [PyLong 1] None)
      = [BeginRemoveRows 1 1, CallPython [PyLong 1] None, EndRemoveRows,
         LogException ''@remove - Error in wrapped function''
           (Some (IndexError, ''pop index out of range''))]"
proof -
  have h: "m_backend_instance (bound_to (remove_method (Returned PyNone)) 1) = Some 1"
    "s_bridgeMap no_registries 1 = None" "s_typeModelMap no_registries 1 = None"
    by (simp_all add: bound_to_def no_registries_def)
  have e: "o_events (tp_call Remove list_model (world_of (Returned two_rows))
        (bound_to (remove_method (Raised (IndexError, ''pop index out of range''))) 1)
        [PyLong 1] None)
      = [BeginRemoveRows 1 1, CallPython [PyLong 1] None, EndRemoveRows,
         LogException ''@remove - Error in wrapped function''
           (Some (IndexError, ''pop index out of range''))]"
    by (simp add: RemoveDecorator_tp_call_def fixture_defs extractArgumentByName_def
          fits_long_def createBoundMethod_def call_wrapped_def long_to_int_def)
  show ?thesis
    using h e
      brackets_closed [of Remove no_registries "world_of (Returned two_rows)"
        "bound_to (remove_method (Returned PyNone)) 1" "[PyLong 1]" None]
      brackets_closed [of Remove list_model "world_of (Returned two_rows)"
        "bound_to (remove_method (Raised (IndexError, ''pop index out of range''))) 1"
        "[PyLong 1]" None]
    by blast
qed

text \<open>
  C2, as amended.  In a call of a bound \<open>move\<close> decorator whose model is resolved, with
  integer arguments \<open>from_index\<close> and \<open>to_index\<close> that a 32-bit \<open>int\<close> holds (and
  \<open>to_index\<close> below \<open>2^31 - 1\<close>), the structural primitives invoked are the begin of a
  move with source range \<open>[from_index, from_index]\<close> and destination \<open>to_index + 1\<close>
  when \<open>to_index > from_index\<close>, \<open>to_index\<close> otherwise, and its end.
\<close>

theorem move_destination:
  assumes v: "validateDecoratorState d ''move'' = Inr (f, b)"
    and g: "getModelForDecorator G d = (Some model, ev)"
    and c: "fn_code f = Some (names, k)" and dn: "distinct (take k names)"
    and sf: "supplied f args kwds ''from_index'' = Some (PyLong fi)"
    and st: "supplied f args kwds ''to_index'' = Some (PyLong ti)"
    and r: "fits_int fi" "fits_int ti" "ti < 2 ^ 31 - 1"
  shows "structural (o_events (MoveDecorator_tp_call G W d args kwds)) =
           [BeginMoveRows (word_of_int fi) (word_of_int fi)
              (word_of_int (if fi < ti then ti + 1 else ti)), EndMoveRows]
       \<and> sint (word_of_int fi :: c_int) = fi
       \<and> sint (word_of_int (if fi < ti then ti + 1 else ti) :: c_int)
           = (if fi < ti then ti + 1 else ti)"
proof -
  let ?dst = "if fi < ti then ti + 1 else ti"
  have x1: "extractArgumentByName f args kwds ''from_index'' True = (Some (PyLong fi), None)"
    by (rule extract_Some [OF c dn sf])
  have x2: "extractArgumentByName f args kwds ''to_index'' True = (Some (PyLong ti), None)"
    by (rule extract_Some [OF c dn st])
  have l: "fits_long fi" "fits_long ti"
    using r by (simp_all add: fits_int_long)
  have adj: "(if (word_of_int fi :: c_long) <s word_of_int ti
              then long_to_int (word_of_int ti) + 1 else long_to_int (word_of_int ti))
             = (word_of_int ?dst :: c_int)"
    by (simp add: sless_long l long_to_int_of_int)
  have fd: "fits_int ?dst"
    using r by (simp add: fits_int_def)
  obtain be ev' where cb: "createBoundMethod f = (be, ev')" by force
  note sc = structural_createBound [OF cb]
  have "structural (o_events (MoveDecorator_tp_call G W d args kwds)) =
           [BeginMoveRows (word_of_int fi) (word_of_int fi) (word_of_int ?dst), EndMoveRows]"
  proof (cases be)
    case None
    with v g x1 x2 l cb show ?thesis
      unfolding MoveDecorator_tp_call_def
      by (simp add: Let_def adj long_to_int_of_int structural_call_wrapped
            structural_single_begin)
  next
    case (Some e)
    with v g x1 x2 l cb sc show ?thesis
      unfolding MoveDecorator_tp_call_def
      by (simp add: Let_def adj long_to_int_of_int structural_failed structural_append
            structural_single_begin)
         (simp add: structural_def)
  qed
  with sint_int_range [OF r(1)] sint_int_range [OF fd] show ?thesis by simp
qed

theorem move_destination_witness:
  "validateDecoratorState (bound_to move_method 1) ''move'' = Inr (move_method, 1)
   \<and> getModelForDecorator list_model (bound_to move_method 1)
       = (Some (adapter_of (Some 1) List True), [])
   \<and> fn_code move_method = Some ([''self'', ''from_index'', ''to_index''], 3)
   \<and> distinct (take 3 [''self'', ''from_index'', ''to_index''])
   \<and> supplied move_method [PyLong 2, PyLong 5] None ''from_index'' = Some (PyLong 2)
   \<and> supplied move_method [PyLong 2, PyLong 5] None ''to_index'' = Some (PyLong 5)
   \<and> fits_int 2 \<and> fits_int 5 \<and> (5 :: int) < 2 ^ 31 - 1
   \<and> structural (o_events (MoveDecorator_tp_call list_model (world_of (Returned two_rows))
        (bound_to move_method 1) [PyLong 2, PyLong 5] None))
      = [BeginMoveRows 2 2 6, EndMoveRows]
   \<and> supplied move_method [] (Some [(''to_index'', PyLong 2), (''from_index'', PyLong 5)])
        ''from_index'' = Some (PyLong 5)
   \<and> supplied move_method [] (Some [(''to_index'', PyLong 2), (''from_index'', PyLong 5)])
        ''to_index'' = Some (PyLong 2)
   \<and> structural (o_events (MoveDecorator_tp_call list_model (world_of (Returned two_rows))
        (bound_to move_method 1) []
        (Some [(''to_index'', PyLong 2), (''from_index'', PyLong 5)])))
      = [BeginMoveRows 5 5 2, EndMoveRows]"
proof -
  have v: "validateDecoratorState (bound_to move_method 1) ''move'' = Inr (move_method, 1)"
    by (simp add: fixture_defs)
  have g: "getModelForDecorator list_model (bound_to move_method 1)
       = (Some (adapter_of (Some 1) List True), [])"
    by (simp add: fixture_defs)
  have c: "fn_code move_method = Some ([''self'', ''from_index'', ''to_index''], 3)"
    by (simp add: fixture_defs)
  have dn: "distinct (take 3 [''self'', ''from_index'', ''to_index''])"
    by simp
  have s1: "supplied move_method [PyLong 2, PyLong 5] None ''from_index'' = Some (PyLong 2)"
    "supplied move_method [PyLong 2, PyLong 5] None ''to_index'' = Some (PyLong 5)"
    by (simp_all add: supplied_def fixture_defs)
  have s2: "supplied move_method [] (Some [(''to_index'', PyLong 2), (''from_index'', PyLong 5)])
        ''from_index'' = Some (PyLong 5)"
    "supplied move_method [] (Some [(''to_index'', PyLong 2), (''from_index'', PyLong 5)])
        ''to_index'' = Some (PyLong 2)"
    by (simp_all add: supplied_def fixture_defs)
  have r: "fits_int 2" "fits_int 5" "(5 :: int) < 2 ^ 31 - 1" "(2 :: int) < 2 ^ 31 - 1"
    by (simp_all add: fits_int_def)
  show ?thesis
    using v g c dn s1 s2 r
      move_destination [OF v g c dn s1 r(1,2,3), of "world_of (Returned two_rows)"]
      move_destination [OF v g c dn s2 r(2,1,4), of "world_of (Returned two_rows)"]
    by simp
qed

text \<open>
  C2 as stated fails: \<open>move(from_index=0, to_index=4294967296)\<close> brackets the move
  with destination 1, the low 32 bits of \<open>to_index\<close> plus one, since the destination is
  held in an \<open>int\<close>.
\<close>

theorem move_destination_counterexample:
  "supplied move_method [PyLong 0, PyLong 4294967296] None ''from_index'' = Some (PyLong 0)
   \<and> supplied move_method [PyLong 0, PyLong 4294967296] None ''to_index''
       = Some (PyLong 4294967296)
   \<and> structural (o_events (MoveDecorator_tp_call list_model (world_of (Returned two_rows))
        (bound_to move_method 1) [PyLong 0, PyLong 4294967296] None))
      = [BeginMoveRows 0 0 1, EndMoveRows]
   \<and> sint (1 :: c_int) \<noteq> 4294967296 + 1"
  by (simp add: supplied_def MoveDecorator_tp_call_def fixture_defs
        extractArgumentByName_def fits_long_def
        createBoundMethod_def call_wrapped_def structural_def long_to_int_def
        word_sless_alt)

text \<open>
  C3, as amended.  In a call of a bound \<open>insert\<close> decorator whose model is resolved and
  whose method binds: when the call supplies no argument named \<open>index\<close>, the events are
  those of \<open>rowCount\<close> in the world before the call, then the begin of an insert at
  \<open>(n, n)\<close> for the row count \<open>n\<close>, the call of the wrapped method and the end of the
  insert; when the wrapped function has a code object and the call supplies an integer
  \<open>index\<close> \<open>i\<close> that a 32-bit \<open>int\<close> holds, the insert begins at \<open>(i, i)\<close>.
\<close>

theorem insert_bracket:
  assumes v: "validateDecoratorState d ''insert'' = Inr (f, b)"
    and g: "getModelForDecorator G d = (Some model, ev)"
    and bind: "fn_get f = None"
    and wf: "\<forall>names k. fn_code f = Some (names, k) \<longrightarrow> distinct (take k names)"
  shows "(supplied f args kwds ''index'' = None \<longrightarrow>
            (\<exists>n evr p rest.
               rowCount W model False = (n, evr, p)
             \<and> o_events (InsertDecorator_tp_call G W d args kwds)
                 = evr @ [BeginInsertRows n n, CallPython args kwds, EndInsertRows] @ rest
             \<and> structural (evr @ rest) = []))
       \<and> (\<forall>i. supplied f args kwds ''index'' = Some (PyLong i) \<and> fits_int i
                \<and> fn_code f \<noteq> None \<longrightarrow>
            (\<exists>rest.
               o_events (InsertDecorator_tp_call G W d args kwds)
                 = [BeginInsertRows (word_of_int i) (word_of_int i), CallPython args kwds,
                    EndInsertRows] @ rest
             \<and> structural rest = [])
            \<and> sint (word_of_int i :: c_int) = i)"
proof -
  have cb: "createBoundMethod f = (None, [])"
    using bind by (simp add: createBoundMethod_def)
  have a: "\<exists>n evr p rest.
               rowCount W model False = (n, evr, p)
             \<and> o_events (InsertDecorator_tp_call G W d args kwds)
                 = evr @ [BeginInsertRows n n, CallPython args kwds, EndInsertRows] @ rest
             \<and> structural (evr @ rest) = []"
    if s: "supplied f args kwds ''index'' = None"
  proof -
    have x: "fst (extractArgumentByName f args kwds ''index'' False) = None"
      by (rule supplied_None_extract [OF wf s])
    obtain n evr p where rc: "rowCount W model False = (n, evr, p)"
      by (cases "rowCount W model False") auto
    note sr = structural_rowCount [OF rc]
    obtain res W' where k: "fn_call f W args kwds = (res, W')" by force
    show ?thesis
    proof (cases res)
      case (Returned x1)
      with v g cb x rc k sr show ?thesis
        by (simp add: InsertDecorator_tp_call_def call_wrapped_def)
    next
      case (Raised e)
      with v g cb x rc k sr show ?thesis
        by (simp add: InsertDecorator_tp_call_def call_wrapped_def structural_append)
    qed
  qed
  have b: "(\<exists>rest.
               o_events (InsertDecorator_tp_call G W d args kwds)
                 = [BeginInsertRows (word_of_int i) (word_of_int i), CallPython args kwds,
                    EndInsertRows] @ rest
             \<and> structural rest = [])
            \<and> sint (word_of_int i :: c_int) = i"
    if s: "supplied f args kwds ''index'' = Some (PyLong i)" and fi: "fits_int i"
      and co: "fn_code f \<noteq> None" for i
  proof -
    from co obtain names k where c: "fn_code f = Some (names, k)" by auto
    with wf have dn: "distinct (take k names)" by simp
    have x: "extractArgumentByName f args kwds ''index'' False = (Some (PyLong i), None)"
      by (rule extract_Some [OF c dn s])
    have l: "fits_long i" using fi by (rule fits_int_long)
    obtain res W' where k: "fn_call f W args kwds = (res, W')" by force
    have "\<exists>rest.
               o_events (InsertDecorator_tp_call G W d args kwds)
                 = [BeginInsertRows (word_of_int i) (word_of_int i), CallPython args kwds,
                    EndInsertRows] @ rest
             \<and> structural rest = []"
      using v g cb x l k
      by (cases res)
         (simp_all add: InsertDecorator_tp_call_def call_wrapped_def long_to_int_of_int)
    with sint_int_range [OF fi] show ?thesis by simp
  qed
  from a b show ?thesis by blast
qed


theorem insert_bracket_witness:
  "validateDecoratorState (bound_to append_method 1) ''insert'' = Inr (append_method, 1)
   \<and> getModelForDecorator list_model (bound_to append_method 1)
       = (Some (adapter_of (Some 1) List True), [])
   \<and> fn_get append_method = None
   \<and> supplied append_method [PyUnicode (ascii ''c'')] None ''index'' = None
   \<and> rowCount (world_of (Returned two_rows)) (adapter_of (Some 1) List True) False
       = (2, [CallData 1], None)
   \<and> o_events (InsertDecorator_tp_call list_model (world_of (Returned two_rows))
        (bound_to append_method 1) [PyUnicode (ascii ''c'')] None)
      = [CallData 1, BeginInsertRows 2 2, CallPython [PyUnicode (ascii ''c'')] None,
         EndInsertRows]
   \<and> validateDecoratorState (bound_to insert_method 1) ''insert'' = Inr (insert_method, 1)
   \<and> getModelForDecorator list_model (bound_to insert_method 1)
       = (Some (adapter_of (Some 1) List True), [])
   \<and> fn_get insert_method = None
   \<and> supplied insert_method [PyLong 0, PyUnicode (ascii ''c'')] None ''index''
       = Some (PyLong 0)
   \<and> fits_int 0 \<and> fn_code insert_method \<noteq> None
   \<and> o_events (InsertDecorator_tp_call list_model (world_of (Returned two_rows))
        (bound_to insert_method 1) [PyLong 0, PyUnicode (ascii ''c'')] None)
      = [BeginInsertRows 0 0, CallPython [PyLong 0, PyUnicode (ascii ''c'')] None,
         EndInsertRows]"
proof -
  have v: "validateDecoratorState (bound_to append_method 1) ''insert'' = Inr (append_method, 1)"
    "validateDecoratorState (bound_to insert_method 1) ''insert'' = Inr (insert_method, 1)"
    by (simp_all add: fixture_defs)
  have g: "getModelForDecorator list_model (bound_to append_method 1)
       = (Some (adapter_of (Some 1) List True), [])"
     "getModelForDecorator list_model (bound_to insert_method 1)
       = (Some (adapter_of (Some 1) List True), [])"
    by (simp_all add: fixture_defs)
  have b: "fn_get append_method = None" "fn_get insert_method = None"
    by (simp_all add: fixture_defs)
  have wf: "\<forall>names k. fn_code append_method = Some (names, k) \<longrightarrow> distinct (take k names)"
    "\<forall>names k. fn_code insert_method = Some (names, k) \<longrightarrow> distinct (take k names)"
    by (auto simp: fixture_defs)
  have s: "supplied append_method [PyUnicode (ascii ''c'')] None ''index'' = None"
    "supplied insert_method [PyLong 0, PyUnicode (ascii ''c'')] None ''index''
       = Some (PyLong 0)"
    by (simp_all add: supplied_def fixture_defs)
  have r: "rowCount (world_of (Returned two_rows)) (adapter_of (Some 1) List True) False
       = (2, [CallData 1], None)"
    by (simp add: rowCount_def fixture_defs)
  have f: "fits_int 0" "fn_code insert_method \<noteq> None"
    by (simp_all add: fits_int_def fixture_defs)
  have e1: "o_events (InsertDecorator_tp_call list_model (world_of (Returned two_rows))
        (bound_to append_method 1) [PyUnicode (ascii ''c'')] None)
      = [CallData 1, BeginInsertRows 2 2, CallPython [PyUnicode (ascii ''c'')] None,
         EndInsertRows]"
    using insert_bracket [OF v(1) g(1) b(1) wf(1), of "[PyUnicode (ascii ''c'')]" None
        "world_of (Returned two_rows)"] s(1) r
    by (simp add: InsertDecorator_tp_call_def fixture_defs extractArgumentByName_def
          createBoundMethod_def call_wrapped_def rowCount_def)
  have e2: "o_events (InsertDecorator_tp_call list_model (world_of (Returned two_rows))
        (bound_to insert_method 1) [PyLong 0, PyUnicode (ascii ''c'')] None)
      = [BeginInsertRows 0 0, CallPython [PyLong 0, PyUnicode (ascii ''c'')] None,
         EndInsertRows]"
    using insert_bracket [OF v(2) g(2) b(2) wf(2), of "[PyLong 0, PyUnicode (ascii ''c'')]" None
        "world_of (Returned two_rows)"] s(2) f
    by (simp add: InsertDecorator_tp_call_def fixture_defs extractArgumentByName_def
          createBoundMethod_def call_wrapped_def fits_long_def long_to_int_def)
  from v g b s r f e1 e2 show ?thesis by blast
qed

text \<open>
  C3 as stated fails: \<open>index=4294967296\<close> begins the insert at \<open>(0, 0)\<close>, and a wrapped
  callable without a code object that is called with the keyword \<open>index=0\<close> on a model
  of two rows begins it at \<open>(2, 2)\<close>, since \<open>extractArgumentByName\<close> reads the keywords
  only where it has found \<open>__code__\<close>.
\<close>

theorem insert_bracket_counterexample:
  "supplied insert_method [PyLong 4294967296, PyUnicode (ascii ''c'')] None ''index''
     = Some (PyLong 4294967296)
   \<and> o_events (InsertDecorator_tp_call list_model (world_of (Returned two_rows))
        (bound_to insert_method 1) [PyLong 4294967296, PyUnicode (ascii ''c'')] None)
      = [BeginInsertRows 0 0,
         CallPython [PyLong 4294967296, PyUnicode (ascii ''c'')] None, EndInsertRows]
   \<and> supplied callable_object [] (Some [(''index'', PyLong 0)]) ''index'' = Some (PyLong 0)
   \<and> o_events (InsertDecorator_tp_call list_model (world_of (Returned two_rows))
        (bound_to callable_object 1) [] (Some [(''index'', PyLong 0)]))
      = [CallData 1, BeginInsertRows 2 2,
         CallPython [] (Some [(''index'', PyLong 0)]), EndInsertRows]"
  by (simp add: supplied_def InsertDecorator_tp_call_def fixture_defs
        extractArgumentByName_def fits_long_def rowCount_def
        createBoundMethod_def call_wrapped_def long_to_int_def)

section \<open>Properties of the method call router and of the registration\<close>

text \<open>
  C10.  \<open>pyObject2VariantOpt\<close> yields nothing for \<open>None\<close>, as it does for a null
  pointer; so the object \<open>None\<close> that a Python method returns is delivered in the same
  way as any object the conversion yields nothing for; and where a method whose declared
  return type is not void returns \<open>None\<close> into a return slot, the call logs the failed
  conversion of the return value and leaves the slot as it was.
\<close>

theorem none_return_fails_conversion:
  "pyObject2VariantOpt E (Some PyNone) = None
   \<and> pyObject2VariantOpt E None = None
   \<and> (\<forall>x. pyObject2VariantOpt E (Some x) = None \<longrightarrow>
          deliver_result E G method slot PyNone = deliver_result E G method slot x)
   \<and> (\<forall>s callable W'.
          mm_typeName method \<noteq> ''void'' \<and> mm_typeName method \<noteq> [] \<and> slot = Some s
          \<and> M backend (mm_name method) = Some callable
          \<and> callable W (map (variant2PyObject E) (take (mm_parameterCount method) args))
              = (Returned PyNone, W')
          \<longrightarrow> invoke_method E G M W backend method slot args
              = (slot,
                 [CallPython (map (variant2PyObject E) (take (mm_parameterCount method) args))
                    None,
                  conversion_failure method], None, W'))"
  by (auto simp: pyObject2VariantOpt_def deliver_result_def invoke_method_def
        conversion_failure_def Let_def)

theorem none_return_fails_conversion_witness:
  "pyObject2VariantOpt pyside_none (Some (PyUnicode [55296])) = None
   \<and> deliver_result pyside_none no_registries count_method (Some Invalid) PyNone
       = deliver_result pyside_none no_registries count_method (Some Invalid)
           (PyUnicode [55296])
   \<and> mm_typeName count_method \<noteq> ''void'' \<and> mm_typeName count_method \<noteq> []
   \<and> methods_returning PyNone 1 (mm_name count_method) = Some (\<lambda>W _. (Returned PyNone, W))
   \<and> invoke_method pyside_none no_registries (methods_returning PyNone)
        (world_of (Returned two_rows)) 1 count_method (Some Invalid) []
       = (Some Invalid, [CallPython [] None, conversion_failure count_method], None,
          world_of (Returned two_rows))"
proof -
  have u: "pyObject2VariantOpt pyside_none (Some (PyUnicode [55296])) = None"
    by (simp add: pyObject2VariantOpt_def pyObject2StringOpt_def toCString_def
          is_surrogate_def)
  have t: "mm_typeName count_method \<noteq> ''void''" "mm_typeName count_method \<noteq> []"
    by (simp_all add: count_method_def)
  have m: "methods_returning PyNone 1 (mm_name count_method)
             = Some (\<lambda>W _. (Returned PyNone, W))"
    by (simp add: methods_returning_def)
  note inst = none_return_fails_conversion [of pyside_none no_registries count_method
      "Some Invalid" "methods_returning PyNone" 1 "world_of (Returned two_rows)" "[]"]
  have d: "deliver_result pyside_none no_registries count_method (Some Invalid) PyNone
       = deliver_result pyside_none no_registries count_method (Some Invalid)
           (PyUnicode [55296])"
    using inst u by blast
  have i: "invoke_method pyside_none no_registries (methods_returning PyNone)
        (world_of (Returned two_rows)) 1 count_method (Some Invalid) []
       = (Some Invalid, [CallPython [] None, conversion_failure count_method], None,
          world_of (Returned two_rows))"
    using inst t m by (simp add: count_method_def)
  from u d t m i show ?thesis by blast
qed





lemma bridge_type_registers:
  assumes "r_result (bridge_type Q G T t uri version qmlName defaultProperty) = Some PyNone"
  shows "type_handler (r_registries (bridge_type Q G T t uri version qmlName defaultProperty)) t
           \<noteq> None"
proof (cases "fromString version")
  case Nil
  with assms show ?thesis by (simp add: bridge_type_def)
next
  case (Cons versionMajor segments)
  note major = this
  show ?thesis
  proof (cases segments)
    case Nil
    with assms major show ?thesis by (simp add: bridge_type_def)
  next
    case (Cons versionMinor others)
    show ?thesis
    proof (cases "type_handler G t")
      case (Some h)
      with major Cons show ?thesis by (simp add: bridge_type_def)
    next
      case None
      obtain bridge attrs ev err
        where n: "new_type_bridge G T t (case defaultProperty of Some p \<Rightarrow> p | None \<Rightarrow> [])
                    = (bridge, attrs, ev, err)"
        by (metis prod_cases4)
      from assms major Cons None n show ?thesis
        by (simp add: bridge_type_def Let_def split: if_splits)
    qed
  qed
qed






end
